theory Spec2Isabelle
  imports
    Complex_Main
    "HOL-Library.Char_ord"
    "HOL-Library.List_Lexorder"
    "HOL-Library.Product_Lexorder"
    "HOL-Library.Log_Nat"
begin

section \<open>Data model (src/store/types.ts)\<close>

text \<open>
  The finance store (src/unnamed/part_001, the module \<open>./financeStore\<close> of
  src/store/index.ts) keeps a cache of rows read from a local SQLite database.
  A JavaScript \<open>number\<close> is a double. A finite double is taken as the rational it
  denotes; the result of an arithmetic operation is the exact result rounded to the
  nearest double (\<open>binary64\<close> below), and the engine's \<open>SUM\<close> is the engine's (field
  \<open>sql_sum\<close> of the database). The infinities and NaN are outside the model. A table row and the cached TypeScript value built from it are two records, the
  second extending the first by the optional fields that only the cache has.
\<close>

datatype TransactionType = expense | income

record category_row =
  c_id :: int
  c_name :: string
  c_icon :: string
  c_color :: string
  c_budget_limit :: rat
  c_category_type :: "TransactionType option"

record Category = category_row +
  totalSpent :: "rat option"
  percentage :: "int option"

record transaction_row =
  t_id :: int
  t_category_id :: int
  t_amount :: rat
  t_date :: string
  t_note :: string
  t_type :: "TransactionType option"
  t_image_uri :: "string option"
  t_created_at :: "int option"

record Transaction = transaction_row +
  category_name :: "string option"
  category_icon :: "string option"
  category_color :: "string option"

text \<open>\<open>Omit<SplitBillMember, 'id' | 'split_bill_id'>\<close>, the member argument of addSplitBill.\<close>

record member_input =
  nm_name :: string
  nm_share_amount :: rat
  nm_is_me :: bool

record SplitBillMember = member_input +
  sm_id :: int
  sm_split_bill_id :: int

text \<open>A row of table \<open>split_bill_members\<close>; column \<open>is_me\<close> holds a number.\<close>

record split_bill_member_row =
  m_id :: int
  m_split_bill_id :: int
  m_name :: string
  m_share_amount :: rat
  m_is_me :: int

record split_bill_row =
  b_id :: int
  b_date :: string
  b_name :: string
  b_total_amount :: rat
  b_image_uri :: "string option"
  b_created_at :: "int option"

record SplitBill = split_bill_row +
  members :: "SplitBillMember list option"

text \<open>\<open>Omit<Category, 'id'>\<close>: the argument of addCategory (its optional derived
  fields are never read by the store and are left out).\<close>

record category_input =
  nc_name :: string
  nc_icon :: string
  nc_color :: string
  nc_budget_limit :: rat
  nc_category_type :: "TransactionType option"

text \<open>\<open>Partial<Category>\<close>: the argument of updateCategory, every field optional.\<close>

record category_partial =
  pc_id :: "int option"
  pc_name :: "string option"
  pc_icon :: "string option"
  pc_color :: "string option"
  pc_budget_limit :: "rat option"
  pc_category_type :: "TransactionType option"

text \<open>The argument of addTransaction: a Transaction without id, created_at and the
  joined fields.\<close>

record transaction_input =
  nt_category_id :: int
  nt_amount :: rat
  nt_date :: string
  nt_note :: string
  nt_type :: "TransactionType option"
  nt_image_uri :: "string option"

text \<open>\<open>Omit<SplitBill, 'id' | 'created_at' | 'members'>\<close>.\<close>

record bill_input =
  nb_date :: string
  nb_name :: string
  nb_total_amount :: rat
  nb_image_uri :: "string option"

text \<open>The two readings of a JavaScript \<open>Date\<close> that the store takes.\<close>

record Date =
  getFullYear :: int
  getMonth :: nat

section \<open>The database behind the \<open>db\<close> handle\<close>

text \<open>
  The four tables the statements of the store name, each in rowid order. The schema and
  the engine are not part of the sources: \<open>strftime_Ym\<close> is the engine's
  \<open>strftime('%Y-%m', \<cdot>)\<close> (\<open>None\<close> is SQL NULL), \<open>sql_sum\<close> is the engine's \<open>SUM\<close> of a
  column that has at least one row, the values in the order of the rows (the engine
  decides whether it adds integers or doubles, and how), and \<open>default_created_at\<close> is
  what the schema gives the column \<open>created_at\<close>, which no INSERT of the store names.
\<close>

record database =
  transactions_tbl :: "transaction_row list"
  categories_tbl :: "category_row list"
  split_bills_tbl :: "split_bill_row list"
  split_bill_members_tbl :: "split_bill_member_row list"
  strftime_Ym :: "string \<Rightarrow> string option"
  sql_sum :: "rat list \<Rightarrow> rat"
  default_created_at :: "int option"

text \<open>The rowid SQLite gives an inserted row: one more than the largest in use.\<close>

definition next_rowid :: "int list \<Rightarrow> int" where
  "next_rowid ids = (if ids = [] then 1 else Max (set ids) + 1)"

text \<open>\<open>SUM(amount)\<close>: NULL over no row.\<close>

definition sql_SUM :: "database \<Rightarrow> rat list \<Rightarrow> rat option" where
  "sql_SUM d xs = (if xs = [] then None else Some (sql_sum d xs))"

definition COALESCE :: "rat option \<Rightarrow> rat \<Rightarrow> rat" where
  "COALESCE x d = (case x of None \<Rightarrow> d | Some v \<Rightarrow> v)"

text \<open>\<open>SELECT * FROM categories\<close>\<close>

definition select_categories :: "database \<Rightarrow> category_row list" where
  "select_categories d = categories_tbl d"

text \<open>\<open>INSERT INTO categories (name, icon, color, budget_limit, category_type) VALUES (?, ?, ?, ?, ?)\<close>\<close>

definition insert_category ::
  "string \<Rightarrow> string \<Rightarrow> string \<Rightarrow> rat \<Rightarrow> TransactionType \<Rightarrow> database \<Rightarrow> unit \<times> database" where
  "insert_category name icon color budget ty d =
     ((), d\<lparr>categories_tbl := categories_tbl d @
        [\<lparr>c_id = next_rowid (map c_id (categories_tbl d)), c_name = name, c_icon = icon,
          c_color = color, c_budget_limit = budget, c_category_type = Some ty\<rparr>]\<rparr>)"

text \<open>\<open>UPDATE categories SET name = ?, icon = ?, color = ? WHERE id = ?\<close>\<close>

definition update_category ::
  "string \<Rightarrow> string \<Rightarrow> string \<Rightarrow> int \<Rightarrow> database \<Rightarrow> unit \<times> database" where
  "update_category name icon color i d =
     ((), d\<lparr>categories_tbl :=
        map (\<lambda>r. if c_id r = i then r\<lparr>c_name := name, c_icon := icon, c_color := color\<rparr> else r)
          (categories_tbl d)\<rparr>)"

text \<open>\<open>DELETE FROM transactions WHERE category_id = ?\<close>\<close>

definition delete_transactions_of_category :: "int \<Rightarrow> database \<Rightarrow> unit \<times> database" where
  "delete_transactions_of_category i d =
     ((), d\<lparr>transactions_tbl := filter (\<lambda>r. t_category_id r \<noteq> i) (transactions_tbl d)\<rparr>)"

text \<open>\<open>DELETE FROM categories WHERE id = ?\<close>\<close>

definition delete_category :: "int \<Rightarrow> database \<Rightarrow> unit \<times> database" where
  "delete_category i d =
     ((), d\<lparr>categories_tbl := filter (\<lambda>r. c_id r \<noteq> i) (categories_tbl d)\<rparr>)"

text \<open>\<open>INSERT INTO transactions (category_id, amount, date, note, image_uri, type) VALUES (?, ?, ?, ?, ?, ?)\<close>\<close>

definition insert_transaction ::
  "int \<Rightarrow> rat \<Rightarrow> string \<Rightarrow> string \<Rightarrow> string option \<Rightarrow> TransactionType \<Rightarrow> database
     \<Rightarrow> unit \<times> database" where
  "insert_transaction cid amount date note img ty d =
     ((), d\<lparr>transactions_tbl := transactions_tbl d @
        [\<lparr>t_id = next_rowid (map t_id (transactions_tbl d)), t_category_id = cid,
          t_amount = amount, t_date = date, t_note = note, t_type = Some ty,
          t_image_uri = img, t_created_at = default_created_at d\<rparr>]\<rparr>)"

text \<open>\<open>DELETE FROM transactions WHERE id = ?\<close>\<close>

definition delete_transaction :: "int \<Rightarrow> database \<Rightarrow> unit \<times> database" where
  "delete_transaction i d =
     ((), d\<lparr>transactions_tbl := filter (\<lambda>r. t_id r \<noteq> i) (transactions_tbl d)\<rparr>)"

text \<open>One row of \<open>transactions t JOIN categories c ON t.category_id = c.id\<close>, projected
  to \<open>t.*, c.name as category_name, c.icon as category_icon, c.color as category_color\<close>.\<close>

definition join_category :: "transaction_row \<Rightarrow> category_row \<Rightarrow> Transaction" where
  "join_category t c =
     \<lparr>t_id = t_id t, t_category_id = t_category_id t, t_amount = t_amount t,
      t_date = t_date t, t_note = t_note t, t_type = t_type t,
      t_image_uri = t_image_uri t, t_created_at = t_created_at t,
      category_name = Some (c_name c), category_icon = Some (c_icon c),
      category_color = Some (c_color c)\<rparr>"

definition joined_transactions :: "database \<Rightarrow> Transaction list" where
  "joined_transactions d =
     concat (map (\<lambda>t. map (join_category t)
                        (filter (\<lambda>c. t_category_id t = c_id c) (categories_tbl d)))
                 (transactions_tbl d))"

text \<open>The SELECT of fetchRecentTransactions:
  \<open>... ORDER BY t.date DESC, t.id DESC LIMIT 20\<close>. Text compares bytewise.\<close>

definition select_recent_transactions :: "database \<Rightarrow> Transaction list" where
  "select_recent_transactions d =
     take 20 (rev (sort_key (\<lambda>r. (t_date r, t_id r)) (joined_transactions d)))"

text \<open>\<open>WHERE strftime('%Y-%m', date) = ?\<close>, and the two conditions on \<open>type\<close>.\<close>

definition in_month :: "database \<Rightarrow> string \<Rightarrow> transaction_row \<Rightarrow> bool" where
  "in_month d ym r = (strftime_Ym d (t_date r) = Some ym)"

definition is_expense :: "transaction_row \<Rightarrow> bool" where
  "is_expense r = (t_type r = Some expense \<or> t_type r = None)"

definition is_income :: "transaction_row \<Rightarrow> bool" where
  "is_income r = (t_type r = Some income)"

definition month_expenses :: "database \<Rightarrow> string \<Rightarrow> transaction_row list" where
  "month_expenses d ym = filter (\<lambda>r. in_month d ym r \<and> is_expense r) (transactions_tbl d)"

definition month_incomes :: "database \<Rightarrow> string \<Rightarrow> transaction_row list" where
  "month_incomes d ym = filter (\<lambda>r. in_month d ym r \<and> is_income r) (transactions_tbl d)"

text \<open>\<open>SELECT COALESCE(SUM(amount), 0) as total FROM transactions WHERE ...\<close>: one row.\<close>

definition select_expense_total :: "string \<Rightarrow> database \<Rightarrow> rat list" where
  "select_expense_total ym d = [COALESCE (sql_SUM d (map t_amount (month_expenses d ym))) 0]"

definition select_income_total :: "string \<Rightarrow> database \<Rightarrow> rat list" where
  "select_income_total ym d = [COALESCE (sql_SUM d (map t_amount (month_incomes d ym))) 0]"

text \<open>\<open>SELECT category_id, SUM(amount) as total ... GROUP BY category_id\<close>: one row
  \<open>(category_id, total)\<close> for each category id among the month's expense rows.\<close>

definition select_breakdown :: "string \<Rightarrow> database \<Rightarrow> (int \<times> rat) list" where
  "select_breakdown ym d =
     map (\<lambda>k. (k, sql_sum d (map t_amount (filter (\<lambda>r. t_category_id r = k)
                                                (month_expenses d ym)))))
       (remdups (map t_category_id (month_expenses d ym)))"

text \<open>\<open>SELECT * FROM split_bills ORDER BY date DESC, id DESC\<close>\<close>

definition select_split_bills :: "database \<Rightarrow> split_bill_row list" where
  "select_split_bills d = rev (sort_key (\<lambda>r. (b_date r, b_id r)) (split_bills_tbl d))"

text \<open>\<open>INSERT INTO split_bills (name, date, total_amount, image_uri) VALUES (?, ?, ?, ?)\<close>;
  the value returned is \<open>lastInsertRowId\<close>.\<close>

definition insert_split_bill ::
  "string \<Rightarrow> string \<Rightarrow> rat \<Rightarrow> string option \<Rightarrow> database \<Rightarrow> int \<times> database" where
  "insert_split_bill name date amount img d =
     (let billId = next_rowid (map b_id (split_bills_tbl d)) in
      (billId, d\<lparr>split_bills_tbl := split_bills_tbl d @
         [\<lparr>b_id = billId, b_date = date, b_name = name, b_total_amount = amount,
           b_image_uri = img, b_created_at = default_created_at d\<rparr>]\<rparr>))"

text \<open>\<open>INSERT INTO split_bill_members (split_bill_id, name, share_amount, is_me) VALUES (?, ?, ?, ?)\<close>\<close>

definition insert_split_bill_member ::
  "int \<Rightarrow> string \<Rightarrow> rat \<Rightarrow> int \<Rightarrow> database \<Rightarrow> unit \<times> database" where
  "insert_split_bill_member billId name share is_me d =
     ((), d\<lparr>split_bill_members_tbl := split_bill_members_tbl d @
        [\<lparr>m_id = next_rowid (map m_id (split_bill_members_tbl d)), m_split_bill_id = billId,
          m_name = name, m_share_amount = share, m_is_me = is_me\<rparr>]\<rparr>)"

text \<open>\<open>DELETE FROM split_bills WHERE id = ?\<close>\<close>

definition delete_split_bill :: "int \<Rightarrow> database \<Rightarrow> unit \<times> database" where
  "delete_split_bill i d =
     ((), d\<lparr>split_bills_tbl := filter (\<lambda>r. b_id r \<noteq> i) (split_bills_tbl d)\<rparr>)"

section \<open>The store and its actions (src/unnamed/part_001)\<close>

record FinanceState =
  transactions :: "Transaction list"
  categories :: "Category list"
  splitBills :: "SplitBill list"
  balance :: rat
  totalIncome :: rat
  totalExpense :: rat
  totalMonth :: rat
  isLoading :: bool

definition initial_state :: FinanceState where
  "initial_state =
     \<lparr>transactions = [], categories = [], splitBills = [], balance = 0, totalIncome = 0,
      totalExpense = 0, totalMonth = 0, isLoading = False\<rparr>"

text \<open>
  Everything an action reads or writes: the database, the state of the store, the lines
  written by \<open>console.error\<close>, the date \<open>new Date()\<close> gives, which of the coming
  calls on the \<open>db\<close> handle will be rejected (\<open>True\<close>: that call throws and changes no
  table; past the end of the list every call succeeds).
\<close>

record world =
  db :: database
  store :: FinanceState
  console :: "string list"
  clock :: Date
  faults :: "bool list"

datatype error = DbError

type_synonym 'a act = "world \<Rightarrow> (error + 'a) \<times> world"

definition return_act :: "'a \<Rightarrow> 'a act" where
  "return_act a w = (Inr a, w)"

text \<open>\<open>await m; f\<close>: a rejected promise skips the rest.\<close>

definition bind_act :: "'a act \<Rightarrow> ('a \<Rightarrow> 'b act) \<Rightarrow> 'b act" where
  "bind_act m f w = (case m w of (Inl e, w') \<Rightarrow> (Inl e, w') | (Inr a, w') \<Rightarrow> f a w')"

definition try_catch :: "unit act \<Rightarrow> (error \<Rightarrow> unit act) \<Rightarrow> unit act" where
  "try_catch body handler w =
     (case body w of (Inl e, w') \<Rightarrow> handler e w' | (Inr a, w') \<Rightarrow> (Inr a, w'))"

definition try_finally :: "unit act \<Rightarrow> unit act \<Rightarrow> unit act" where
  "try_finally body fin w =
     (case body w of (r, w') \<Rightarrow>
        (case fin w' of (Inl e, w'') \<Rightarrow> (Inl e, w'') | (Inr a, w'') \<Rightarrow> (r, w'')))"

primrec for_each :: "'a list \<Rightarrow> ('a \<Rightarrow> unit act) \<Rightarrow> unit act" where
  "for_each [] f = return_act ()"
| "for_each (x # xs) f = bind_act (f x) (\<lambda>_. for_each xs f)"

definition console_error :: "string \<Rightarrow> unit act" where
  "console_error msg w = (Inr (), w\<lparr>console := console w @ [msg]\<rparr>)"

definition set_state :: "(FinanceState \<Rightarrow> FinanceState) \<Rightarrow> unit act" where
  "set_state upd w = (Inr (), w\<lparr>store := upd (store w)\<rparr>)"

definition get_state :: "FinanceState act" where
  "get_state w = (Inr (store w), w)"

definition new_Date :: "Date act" where
  "new_Date w = (Inr (clock w), w)"

definition next_fails :: "world \<Rightarrow> bool" where
  "next_fails w = (case faults w of [] \<Rightarrow> False | f # fs \<Rightarrow> f)"

definition tick :: "world \<Rightarrow> world" where
  "tick w = w\<lparr>faults := tl (faults w)\<rparr>"

text \<open>\<open>db.runAsync\<close>: a statement, run on the tables unless the call is rejected.\<close>

definition runAsync :: "(database \<Rightarrow> 'a \<times> database) \<Rightarrow> 'a act" where
  "runAsync stmt w =
     (if next_fails w then (Inl DbError, tick w)
      else (case stmt (db w) of (a, d') \<Rightarrow> (Inr a, (tick w)\<lparr>db := d'\<rparr>)))"

text \<open>\<open>db.getAllAsync\<close>: all rows of a query.\<close>

definition getAllAsync :: "(database \<Rightarrow> 'a list) \<Rightarrow> 'a list act" where
  "getAllAsync query w =
     (if next_fails w then (Inl DbError, tick w) else (Inr (query (db w)), tick w))"

text \<open>\<open>db.getFirstAsync\<close>: the first row of a query, or null.\<close>

definition getFirstAsync :: "(database \<Rightarrow> 'a list) \<Rightarrow> 'a option act" where
  "getFirstAsync query w =
     (if next_fails w then (Inl DbError, tick w)
      else (Inr (case query (db w) of [] \<Rightarrow> None | r # _ \<Rightarrow> Some r), tick w))"

subsection \<open>IEEE 754 binary64\<close>

text \<open>
  The double nearest to a rational, ties to the even significand: 53 bits of significand
  above the subnormal range, multiples of 2^-1074 in it. A result beyond the largest
  double is not turned into an infinity. \<open>ilog2 x\<close> is the floor of the binary
  logarithm of a positive \<open>x\<close>.
\<close>

definition ilog2 :: "rat \<Rightarrow> int" where
  "ilog2 x =
     (if 1 \<le> x then int (floorlog 2 (nat \<lfloor>x\<rfloor>)) - 1
      else - int (floorlog 2 (nat (\<lceil>1 / x\<rceil> - 1))))"

definition round_even :: "rat \<Rightarrow> int" where
  "round_even y =
     (if y - of_int \<lfloor>y\<rfloor> < 1 / 2 then \<lfloor>y\<rfloor>
      else if 1 / 2 < y - of_int \<lfloor>y\<rfloor> then \<lfloor>y\<rfloor> + 1
      else if even \<lfloor>y\<rfloor> then \<lfloor>y\<rfloor> else \<lfloor>y\<rfloor> + 1)"

definition expo :: "rat \<Rightarrow> int" where
  "expo x = max (ilog2 x - 52) (- 1074)"

definition binary64 :: "rat \<Rightarrow> rat" where
  "binary64 x =
     (if x = 0 then 0
      else sgn x * of_int (round_even (\<bar>x\<bar> / 2 powi expo \<bar>x\<bar>)) * 2 powi expo \<bar>x\<bar>)"

subsection \<open>JavaScript operators\<close>

text \<open>\<open>a || b\<close> on a string that may be undefined, and on a number.\<close>

definition or_string :: "string option \<Rightarrow> string \<Rightarrow> string" where
  "or_string a b = (case a of None \<Rightarrow> b | Some s \<Rightarrow> if s = [] then b else s)"

definition or_number :: "rat \<Rightarrow> rat \<Rightarrow> rat" where
  "or_number a b = (if a = 0 then b else a)"

text \<open>
  \<open>a - b\<close>, \<open>a / b\<close> and \<open>a * b\<close> on numbers: the exact result, rounded to a double
  (the store divides by a positive number only).
\<close>

definition js_minus :: "rat \<Rightarrow> rat \<Rightarrow> rat" where
  "js_minus a b = binary64 (a - b)"

definition js_divide :: "rat \<Rightarrow> rat \<Rightarrow> rat" where
  "js_divide a b = binary64 (a / b)"

definition js_times :: "rat \<Rightarrow> rat \<Rightarrow> rat" where
  "js_times a b = binary64 (a * b)"

text \<open>\<open>a ?? b\<close>, and \<open>a || b\<close> where every defined \<open>a\<close> is truthy.\<close>

definition or_default :: "'a option \<Rightarrow> 'a \<Rightarrow> 'a" where
  "or_default a b = (case a of None \<Rightarrow> b | Some v \<Rightarrow> v)"

text \<open>\<open>Math.round\<close> of a double: the nearest integer, a half rounded up (exactly).\<close>

definition Math_round :: "rat \<Rightarrow> int" where
  "Math_round x = \<lfloor>x + 1 / 2\<rfloor>"

text \<open>\<open>String(n)\<close> on integers, and \<open>padStart(2, '0')\<close>.\<close>

fun String_nat :: "nat \<Rightarrow> string" where
  "String_nat n =
     (if n < 10 then [char_of (48 + n)]
      else String_nat (n div 10) @ [char_of (48 + n mod 10)])"

declare String_nat.simps [simp del]

definition String_int :: "int \<Rightarrow> string" where
  "String_int i = (if i < 0 then CHR ''-'' # String_nat (nat (- i)) else String_nat (nat i))"

definition padStart2 :: "string \<Rightarrow> string" where
  "padStart2 s = replicate (2 - length s) CHR ''0'' @ s"

definition yearMonth :: "Date \<Rightarrow> string" where
  "yearMonth targetDate =
     String_int (getFullYear targetDate) @ ''-'' @ padStart2 (String_nat (getMonth targetDate + 1))"

subsection \<open>Category actions\<close>

definition as_Category :: "category_row \<Rightarrow> Category" where
  "as_Category r =
     \<lparr>c_id = c_id r, c_name = c_name r, c_icon = c_icon r, c_color = c_color r,
      c_budget_limit = c_budget_limit r, c_category_type = c_category_type r,
      totalSpent = None, percentage = None\<rparr>"

definition fetchCategories :: "unit act" where
  "fetchCategories =
     try_catch
       (bind_act (getAllAsync select_categories) (\<lambda>result.
          set_state (\<lambda>s. s\<lparr>categories := map as_Category result\<rparr>)))
       (\<lambda>e. console_error ''[FinanceStore] Error fetching categories:'')"

definition addCategory :: "category_input \<Rightarrow> unit act" where
  "addCategory category =
     try_catch
       (bind_act
          (runAsync (insert_category (nc_name category) (nc_icon category) (nc_color category)
             (or_number (nc_budget_limit category) 0)
             (or_default (nc_category_type category) expense)))
          (\<lambda>_. fetchCategories))
       (\<lambda>e. console_error ''[FinanceStore] Error adding category:'')"

definition updateCategory :: "int \<Rightarrow> category_partial \<Rightarrow> unit act" where
  "updateCategory i category =
     try_catch
       (bind_act
          (runAsync (update_category (or_string (pc_name category) [])
             (or_string (pc_icon category) []) (or_string (pc_color category) []) i))
          (\<lambda>_. fetchCategories))
       (\<lambda>e. console_error ''[FinanceStore] Error updating category:'')"

definition deleteCategory :: "int \<Rightarrow> unit act" where
  "deleteCategory i =
     try_catch
       (bind_act (runAsync (delete_transactions_of_category i)) (\<lambda>_.
        bind_act (runAsync (delete_category i)) (\<lambda>_.
        fetchCategories)))
       (\<lambda>e. console_error ''[FinanceStore] Error deleting category:'')"

subsection \<open>Summary\<close>

text \<open>The body of \<open>categories.map(cat => ...)\<close> in calculateMonthSummary.\<close>

definition with_stats :: "(int \<times> rat) list \<Rightarrow> rat \<Rightarrow> Category \<Rightarrow> Category" where
  "with_stats breakdownResult totExpense cat =
     (let catTotal = (case find (\<lambda>b. fst b = c_id cat) breakdownResult of
                        None \<Rightarrow> 0 | Some b \<Rightarrow> or_number (snd b) 0);
          pct = (if totExpense > 0
                 then Math_round (js_times (js_divide catTotal totExpense) 100) else 0)
      in cat\<lparr>totalSpent := Some catTotal, percentage := Some pct\<rparr>)"

definition calculateMonthSummary :: "Date option \<Rightarrow> unit act" where
  "calculateMonthSummary selectedMonth =
     try_catch
       (bind_act (case selectedMonth of Some d \<Rightarrow> return_act d | None \<Rightarrow> new_Date) (\<lambda>targetDate.
        bind_act (getFirstAsync (select_expense_total (yearMonth targetDate))) (\<lambda>expenseResult.
        bind_act (getFirstAsync (select_income_total (yearMonth targetDate))) (\<lambda>incomeResult.
        bind_act (getAllAsync (select_breakdown (yearMonth targetDate))) (\<lambda>breakdownResult.
        bind_act get_state (\<lambda>current.
        set_state (\<lambda>s. s
          \<lparr>balance := js_minus (case incomeResult of None \<Rightarrow> 0 | Some t \<Rightarrow> or_number t 0)
                   (case expenseResult of None \<Rightarrow> 0 | Some t \<Rightarrow> or_number t 0),
           totalMonth := js_minus (case incomeResult of None \<Rightarrow> 0 | Some t \<Rightarrow> or_number t 0)
                   (case expenseResult of None \<Rightarrow> 0 | Some t \<Rightarrow> or_number t 0),
           totalIncome := (case incomeResult of None \<Rightarrow> 0 | Some t \<Rightarrow> or_number t 0),
           totalExpense := (case expenseResult of None \<Rightarrow> 0 | Some t \<Rightarrow> or_number t 0),
           categories :=
             map (with_stats breakdownResult
                    (case expenseResult of None \<Rightarrow> 0 | Some t \<Rightarrow> or_number t 0))
               (categories current)\<rparr>)))))))
       (\<lambda>e. console_error ''[FinanceStore] Error calculating summary:'')"

definition calculateTotalMonth :: "Date option \<Rightarrow> unit act" where
  "calculateTotalMonth selectedMonth = calculateMonthSummary selectedMonth"

subsection \<open>Transaction actions\<close>

definition fetchRecentTransactions :: "unit act" where
  "fetchRecentTransactions =
     try_catch
       (bind_act (getAllAsync select_recent_transactions) (\<lambda>result.
          set_state (\<lambda>s. s\<lparr>transactions := result\<rparr>)))
       (\<lambda>e. console_error ''[FinanceStore] Error fetching transactions:'')"

definition addTransaction :: "transaction_input \<Rightarrow> unit act" where
  "addTransaction transaction =
     bind_act (set_state (\<lambda>s. s\<lparr>isLoading := True\<rparr>)) (\<lambda>_.
     try_finally
       (try_catch
          (bind_act
             (runAsync (insert_transaction (nt_category_id transaction) (nt_amount transaction)
                (nt_date transaction) (nt_note transaction) (nt_image_uri transaction)
                (or_default (nt_type transaction) expense)))
             (\<lambda>_. bind_act fetchRecentTransactions (\<lambda>_. calculateMonthSummary None)))
          (\<lambda>e. console_error ''[FinanceStore] Error adding transaction:''))
       (set_state (\<lambda>s. s\<lparr>isLoading := False\<rparr>)))"

definition addExpense :: "transaction_input \<Rightarrow> unit act" where
  "addExpense transaction = addTransaction transaction"

definition deleteTransaction :: "int \<Rightarrow> unit act" where
  "deleteTransaction i =
     try_catch
       (bind_act (runAsync (delete_transaction i)) (\<lambda>_.
        bind_act fetchRecentTransactions (\<lambda>_. calculateMonthSummary None)))
       (\<lambda>e. console_error ''[FinanceStore] Error deleting transaction:'')"

subsection \<open>Split bill actions\<close>

definition as_SplitBill :: "split_bill_row \<Rightarrow> SplitBill" where
  "as_SplitBill r =
     \<lparr>b_id = b_id r, b_date = b_date r, b_name = b_name r, b_total_amount = b_total_amount r,
      b_image_uri = b_image_uri r, b_created_at = b_created_at r, members = None\<rparr>"

definition fetchSplitBills :: "unit act" where
  "fetchSplitBills =
     try_catch
       (bind_act (getAllAsync select_split_bills) (\<lambda>bills.
          set_state (\<lambda>s. s\<lparr>splitBills := map as_SplitBill bills\<rparr>)))
       (\<lambda>e. console_error ''[FinanceStore] Error fetching split bills:'')"

definition insert_member_of :: "int \<Rightarrow> member_input \<Rightarrow> unit act" where
  "insert_member_of billId member =
     runAsync (insert_split_bill_member billId (nm_name member) (nm_share_amount member)
       (if nm_is_me member then 1 else 0))"

definition addSplitBill :: "bill_input \<Rightarrow> member_input list \<Rightarrow> unit act" where
  "addSplitBill bill mems =
     try_catch
       (bind_act
          (runAsync (insert_split_bill (nb_name bill) (nb_date bill) (nb_total_amount bill)
             (nb_image_uri bill)))
          (\<lambda>billId. bind_act (for_each mems (insert_member_of billId)) (\<lambda>_. fetchSplitBills)))
       (\<lambda>e. console_error ''[FinanceStore] Error adding split bill:'')"

definition deleteSplitBill :: "int \<Rightarrow> unit act" where
  "deleteSplitBill i =
     try_catch
       (bind_act (runAsync (delete_split_bill i)) (\<lambda>_. fetchSplitBills))
       (\<lambda>e. console_error ''[FinanceStore] Error deleting split bill:'')"

section \<open>Notions used in the statements\<close>

text \<open>One of the next \<open>n\<close> calls on the \<open>db\<close> handle is rejected.\<close>

definition fails_within :: "nat \<Rightarrow> world \<Rightarrow> bool" where
  "fails_within n w = (True \<in> set (take n (faults w)))"

text \<open>The seven data fields of the store agree (everything but \<open>isLoading\<close>).\<close>

definition same_data :: "FinanceState \<Rightarrow> FinanceState \<Rightarrow> bool" where
  "same_data s s' =
     (transactions s' = transactions s \<and> categories s' = categories s \<and>
      splitBills s' = splitBills s \<and> balance s' = balance s \<and> totalMonth s' = totalMonth s \<and>
      totalIncome s' = totalIncome s \<and> totalExpense s' = totalExpense s)"

text \<open>The \<open>yearMonth\<close> string calculateMonthSummary computes, and the state it publishes
  when its three queries succeed.\<close>

definition target_month :: "Date option \<Rightarrow> world \<Rightarrow> string" where
  "target_month sel w = yearMonth (case sel of Some d \<Rightarrow> d | None \<Rightarrow> clock w)"

definition engine_total :: "database \<Rightarrow> rat list \<Rightarrow> rat" where
  "engine_total d xs = (if xs = [] then 0 else sql_sum d xs)"

definition summary_state :: "string \<Rightarrow> database \<Rightarrow> FinanceState \<Rightarrow> FinanceState" where
  "summary_state ym d s =
     s\<lparr>balance := js_minus (engine_total d (map t_amount (month_incomes d ym)))
                   (engine_total d (map t_amount (month_expenses d ym))),
       totalMonth := js_minus (engine_total d (map t_amount (month_incomes d ym)))
                   (engine_total d (map t_amount (month_expenses d ym))),
       totalIncome := engine_total d (map t_amount (month_incomes d ym)),
       totalExpense := engine_total d (map t_amount (month_expenses d ym)),
       categories := map (with_stats (select_breakdown ym d)
                            (engine_total d (map t_amount (month_expenses d ym))))
          (categories s)\<rparr>"

definition spent_in :: "database \<Rightarrow> string \<Rightarrow> int \<Rightarrow> rat" where
  "spent_in d ym k =
     engine_total d (map t_amount (filter (\<lambda>r. t_category_id r = k) (month_expenses d ym)))"

text \<open>The engine's \<open>SUM\<close> of a column is the exact sum of its values, as it is when the
  values are whole numbers (below 2^53).\<close>

definition sums_exactly :: "database \<Rightarrow> rat list \<Rightarrow> bool" where
  "sums_exactly d xs = (xs = [] \<or> sql_sum d xs = sum_list xs)"


text \<open>\<open>SUM\<close> as a running total in doubles, row after row.\<close>

definition double_sum :: "rat list \<Rightarrow> rat" where
  "double_sum xs = foldl (\<lambda>s a. binary64 (s + a)) 0 xs"

text \<open>The tables after the member rows of \<open>ms\<close> have been inserted one after the other.\<close>

definition members_inserted :: "int \<Rightarrow> member_input list \<Rightarrow> database \<Rightarrow> database" where
  "members_inserted billId ms d =
     fold (\<lambda>m d. snd (insert_split_bill_member billId (nm_name m) (nm_share_amount m)
                        (if nm_is_me m then 1 else 0) d)) ms d"

subsection \<open>A small database\<close>

text \<open>
  Three expense categories and one income category; in June 2024 three expense rows
  (198, 1 and 1, the second with no type) and one income row (500); two expense rows in
  May, the last of them naming a category that does not exist. The engine's
  \<open>strftime('%Y-%m', \<cdot>)\<close> is taken on ISO dates, where it is the first seven characters,
  and its \<open>SUM\<close> as a running total in doubles. \<open>demo_world fs\<close> is the store after its
  fetches, in June 2024, with \<open>fs\<close> the coming rejections.
\<close>

definition demo_db :: database where
  "demo_db =
     \<lparr>transactions_tbl =
        [\<lparr>t_id = 1, t_category_id = 1, t_amount = 198, t_date = ''2024-06-15'', t_note = ''lunch'',
          t_type = Some expense, t_image_uri = None, t_created_at = None\<rparr>,
         \<lparr>t_id = 2, t_category_id = 2, t_amount = 1, t_date = ''2024-06-16'', t_note = ''bus'',
          t_type = None, t_image_uri = None, t_created_at = None\<rparr>,
         \<lparr>t_id = 3, t_category_id = 4, t_amount = 500, t_date = ''2024-06-01'', t_note = ''salary'',
          t_type = Some income, t_image_uri = None, t_created_at = None\<rparr>,
         \<lparr>t_id = 4, t_category_id = 3, t_amount = 1, t_date = ''2024-06-20'', t_note = ''game'',
          t_type = Some expense, t_image_uri = None, t_created_at = None\<rparr>,
         \<lparr>t_id = 5, t_category_id = 1, t_amount = 70, t_date = ''2024-05-30'', t_note = ''dinner'',
          t_type = Some expense, t_image_uri = None, t_created_at = None\<rparr>,
         \<lparr>t_id = 6, t_category_id = 9, t_amount = 5, t_date = ''2024-05-02'', t_note = ''lost'',
          t_type = Some expense, t_image_uri = None, t_created_at = None\<rparr>],
      categories_tbl =
        [\<lparr>c_id = 1, c_name = ''Food'', c_icon = ''utensils'', c_color = ''red'',
          c_budget_limit = 0, c_category_type = Some expense\<rparr>,
         \<lparr>c_id = 2, c_name = ''Transport'', c_icon = ''bus'', c_color = ''blue'',
          c_budget_limit = 100, c_category_type = Some expense\<rparr>,
         \<lparr>c_id = 3, c_name = ''Fun'', c_icon = ''game'', c_color = ''green'',
          c_budget_limit = 0, c_category_type = None\<rparr>,
         \<lparr>c_id = 4, c_name = ''Salary'', c_icon = ''cash'', c_color = ''gold'',
          c_budget_limit = 0, c_category_type = Some income\<rparr>],
      split_bills_tbl = [],
      split_bill_members_tbl = [],
      strftime_Ym = (\<lambda>s. Some (take 7 s)),
      sql_sum = double_sum,
      default_created_at = None\<rparr>"

definition demo_world :: "bool list \<Rightarrow> world" where
  "demo_world fs =
     \<lparr>db = demo_db,
      store = initial_state\<lparr>transactions := select_recent_transactions demo_db,
                categories := map as_Category (categories_tbl demo_db)\<rparr>,
      console = [],
      clock = \<lparr>getFullYear = 2024, getMonth = 5\<rparr>,
      faults = fs\<rparr>"

text \<open>
  The same store over other rows of table \<open>transactions\<close>, all expenses of June 2024:
  23 and 17, whose shares of 40 are not doubles; -1 and 9; and the doubles 0.1 and 0.2.
\<close>

definition demo_world_of :: "transaction_row list \<Rightarrow> world" where
  "demo_world_of rows = (demo_world [])\<lparr>db := demo_db\<lparr>transactions_tbl := rows\<rparr>\<rparr>"



definition fraction_rows :: "transaction_row list" where
  "fraction_rows =
     [\<lparr>t_id = 1, t_category_id = 1, t_amount = 3602879701896397 / 36028797018963968,
       t_date = ''2024-06-03'', t_note = ''gum'', t_type = Some expense, t_image_uri = None,
       t_created_at = None\<rparr>,
      \<lparr>t_id = 2, t_category_id = 1, t_amount = 3602879701896397 / 18014398509481984,
       t_date = ''2024-06-04'', t_note = ''mint'', t_type = Some expense, t_image_uri = None,
       t_created_at = None\<rparr>]"

definition demo_category :: category_input where
  "demo_category =
     \<lparr>nc_name = ''Health'', nc_icon = ''heart'', nc_color = ''pink'', nc_budget_limit = 0,
      nc_category_type = None\<rparr>"

definition demo_partial :: category_partial where
  "demo_partial =
     \<lparr>pc_id = None, pc_name = Some ''Commute'', pc_icon = None, pc_color = None,
      pc_budget_limit = Some 5, pc_category_type = Some income\<rparr>"

definition demo_transaction :: transaction_input where
  "demo_transaction =
     \<lparr>nt_category_id = 1, nt_amount = 40, nt_date = ''2024-06-21'', nt_note = ''snack'',
      nt_type = None, nt_image_uri = None\<rparr>"

definition demo_bill :: bill_input where
  "demo_bill =
     \<lparr>nb_date = ''2024-06-22'', nb_name = ''Dinner'', nb_total_amount = 90, nb_image_uri = None\<rparr>"

definition demo_members :: "member_input list" where
  "demo_members =
     [\<lparr>nm_name = ''me'', nm_share_amount = 30, nm_is_me = True\<rparr>,
      \<lparr>nm_name = ''Ana'', nm_share_amount = 30, nm_is_me = False\<rparr>,
      \<lparr>nm_name = ''Budi'', nm_share_amount = 30, nm_is_me = False\<rparr>]"

section \<open>Running the actions\<close>

lemmas act_defs = try_catch_def bind_act_def return_act_def getAllAsync_def getFirstAsync_def
  runAsync_def set_state_def get_state_def console_error_def new_Date_def try_finally_def

lemma next_fails_simps [simp]:
  "next_fails (w\<lparr>db := d\<rparr>) = next_fails w"
  "next_fails (w\<lparr>store := s\<rparr>) = next_fails w"
  "next_fails (w\<lparr>console := c\<rparr>) = next_fails w"
  by (simp_all add: next_fails_def)

lemma tick_simps [simp]:
  "db (tick w) = db w" "store (tick w) = store w" "console (tick w) = console w"
  "clock (tick w) = clock w" "faults (tick w) = tl (faults w)"
  by (simp_all add: tick_def)

lemma tick_upd [simp]:
  "tick (w\<lparr>db := d\<rparr>) = (tick w)\<lparr>db := d\<rparr>"
  "tick (w\<lparr>store := s\<rparr>) = (tick w)\<lparr>store := s\<rparr>"
  "tick (w\<lparr>console := c\<rparr>) = (tick w)\<lparr>console := c\<rparr>"
  by (simp_all add: tick_def)

lemma fails_within_0 [simp]: "\<not> fails_within 0 w"
  by (simp add: fails_within_def)

lemma fails_within_Suc: "fails_within (Suc n) w = (next_fails w \<or> fails_within n (tick w))"
  by (cases "faults w") (auto simp: fails_within_def next_fails_def)

lemma fails_within_upd [simp]:
  "fails_within n (w\<lparr>db := d\<rparr>) = fails_within n w"
  "fails_within n (w\<lparr>store := s\<rparr>) = fails_within n w"
  "fails_within n (w\<lparr>console := c\<rparr>) = fails_within n w"
  by (simp_all add: fails_within_def)

lemma or_number_0 [simp]: "or_number x 0 = x"
  by (simp add: or_number_def)

lemma COALESCE_SUM [simp]: "COALESCE (sql_SUM d xs) 0 = engine_total d xs"
  by (simp add: COALESCE_def sql_SUM_def engine_total_def)

lemma or_string_empty: "or_string a [] = (case a of None \<Rightarrow> [] | Some s \<Rightarrow> s)"
  by (simp add: or_string_def split: option.splits)

lemma fetchCategories_run:
  "fetchCategories w =
     (Inr (), if next_fails w
        then (tick w)\<lparr>console := console w @ [''[FinanceStore] Error fetching categories:'']\<rparr>
        else (tick w)\<lparr>store := (store w)\<lparr>categories := map as_Category (categories_tbl (db w))\<rparr>\<rparr>)"
  by (simp add: fetchCategories_def act_defs select_categories_def)

lemma fetchRecentTransactions_run:
  "fetchRecentTransactions w =
     (Inr (), if next_fails w
        then (tick w)\<lparr>console := console w @ [''[FinanceStore] Error fetching transactions:'']\<rparr>
        else (tick w)\<lparr>store := (store w)\<lparr>transactions := select_recent_transactions (db w)\<rparr>\<rparr>)"
  by (simp add: fetchRecentTransactions_def act_defs)

lemma fetchSplitBills_run:
  "fetchSplitBills w =
     (Inr (), if next_fails w
        then (tick w)\<lparr>console := console w @ [''[FinanceStore] Error fetching split bills:'']\<rparr>
        else (tick w)\<lparr>store := (store w)\<lparr>splitBills := map as_SplitBill (select_split_bills (db w))\<rparr>\<rparr>)"
  by (simp add: fetchSplitBills_def act_defs)

lemma addCategory_run:
  "addCategory c w =
     (Inr (), if next_fails w
        then (tick w)\<lparr>console := console w @ [''[FinanceStore] Error adding category:'']\<rparr>
        else snd (fetchCategories ((tick w)\<lparr>db := snd (insert_category (nc_name c) (nc_icon c)
               (nc_color c) (or_number (nc_budget_limit c) 0)
               (or_default (nc_category_type c) expense) (db w))\<rparr>)))"
  by (simp add: addCategory_def act_defs fetchCategories_run split: prod.splits)

lemma updateCategory_run:
  "updateCategory i c w =
     (Inr (), if next_fails w
        then (tick w)\<lparr>console := console w @ [''[FinanceStore] Error updating category:'']\<rparr>
        else snd (fetchCategories ((tick w)\<lparr>db := snd (update_category (or_string (pc_name c) [])
             (or_string (pc_icon c) []) (or_string (pc_color c) []) i (db w))\<rparr>)))"
  by (simp add: updateCategory_def act_defs fetchCategories_run split: prod.splits)

lemma deleteCategory_run:
  "deleteCategory i w =
     (Inr (), if next_fails w
        then (tick w)\<lparr>console := console w @ [''[FinanceStore] Error deleting category:'']\<rparr>
        else if next_fails (tick w)
        then (tick (tick w))\<lparr>db := snd (delete_transactions_of_category i (db w)),
               console := console w @ [''[FinanceStore] Error deleting category:'']\<rparr>
        else snd (fetchCategories ((tick (tick w))\<lparr>db :=
               snd (delete_category i (snd (delete_transactions_of_category i (db w))))\<rparr>)))"
  by (simp add: deleteCategory_def act_defs fetchCategories_run split: prod.splits)

lemma deleteSplitBill_run:
  "deleteSplitBill i w =
     (Inr (), if next_fails w
        then (tick w)\<lparr>console := console w @ [''[FinanceStore] Error deleting split bill:'']\<rparr>
        else snd (fetchSplitBills ((tick w)\<lparr>db := snd (delete_split_bill i (db w))\<rparr>)))"
  by (simp add: deleteSplitBill_def act_defs fetchSplitBills_run split: prod.splits)

lemma cms_ok:
  "\<not> fails_within 3 w \<Longrightarrow>
   calculateMonthSummary sel w =
     (Inr (), (tick (tick (tick w)))
        \<lparr>store := summary_state (target_month sel w) (db w) (store w)\<rparr>)"
  by (simp add: calculateMonthSummary_def act_defs numeral_3_eq_3 fails_within_Suc
      select_expense_total_def select_income_total_def summary_state_def target_month_def
      split: option.splits)

lemma cms_fail:
  "fails_within 3 w \<Longrightarrow>
   fst (calculateMonthSummary sel w) = Inr () \<and>
   db (snd (calculateMonthSummary sel w)) = db w \<and>
   store (snd (calculateMonthSummary sel w)) = store w \<and>
   clock (snd (calculateMonthSummary sel w)) = clock w \<and>
   console (snd (calculateMonthSummary sel w)) = console w @ [''[FinanceStore] Error calculating summary:'']"
  by (auto simp add: calculateMonthSummary_def act_defs numeral_3_eq_3 fails_within_Suc
      select_expense_total_def select_income_total_def
      split: option.splits)

lemma find_keyed:
  "find (\<lambda>b. fst b = k) (map (\<lambda>k. (k, g k)) ks) = (if k \<in> set ks then Some (k, g k) else None)"
  by (induction ks) auto

lemma sum_filter_absent:
  "k \<notin> g ` set rows \<Longrightarrow> sum_list (map f (filter (\<lambda>r. g r = k) rows)) = (0::rat)"
  by (induction rows) auto

lemma group_empty: "filter (\<lambda>r. g r = k) rows = [] \<longleftrightarrow> k \<notin> g ` set rows"
  by (auto simp: filter_empty_conv)

lemma with_stats_breakdown:
  "with_stats (select_breakdown ym d) E cat =
     cat\<lparr>totalSpent := Some (spent_in d ym (c_id cat)),
         percentage := Some (if 0 < E
           then Math_round (js_times (js_divide (spent_in d ym (c_id cat)) E) 100)
           else 0)\<rparr>"
  by (simp add: with_stats_def select_breakdown_def find_keyed spent_in_def engine_total_def
      group_empty)

lemma month_expenses_eq:
  "month_expenses d ym =
     filter (\<lambda>r. strftime_Ym d (t_date r) = Some ym \<and> (t_type r = Some expense \<or> t_type r = None))
       (transactions_tbl d)"
  by (simp add: month_expenses_def in_month_def is_expense_def)












lemma with_stats_idem: "with_stats b E (with_stats b E cat) = with_stats b E cat"
  by (simp add: with_stats_def Let_def)

lemma summary_state_idem:
  "summary_state ym d (summary_state ym d s) = summary_state ym d s"
  by (simp add: summary_state_def with_stats_idem)

lemma target_month_after [simp]:
  "target_month sel (w\<lparr>store := s\<rparr>) = target_month sel w"
  "target_month sel (w\<lparr>db := d\<rparr>) = target_month sel w"
  "target_month sel (tick w) = target_month sel w"
  by (simp_all add: target_month_def split: option.splits)

lemma deleteTransaction_ok:
  "\<not> fails_within 5 w \<Longrightarrow>
   deleteTransaction i w =
     (Inr (), (tick (tick (tick (tick (tick w)))))
        \<lparr>db := snd (delete_transaction i (db w)),
          store := summary_state (target_month None w)
                     (snd (delete_transaction i (db w)))
                     ((store w)\<lparr>transactions :=
                        select_recent_transactions (snd (delete_transaction i (db w)))\<rparr>)\<rparr>)"
  by (simp add: deleteTransaction_def try_catch_def bind_act_def runAsync_def
      fetchRecentTransactions_run cms_ok eval_nat_numeral fails_within_Suc split: prod.splits)

lemma sum_without_row:
  fixes f :: "transaction_row \<Rightarrow> rat"
  shows "distinct (map t_id rows) \<Longrightarrow> r \<in> set rows \<Longrightarrow>
    sum_list (map f (filter (\<lambda>x. P x \<and> t_id x \<noteq> t_id r) rows)) =
      sum_list (map f (filter P rows)) - (if P r then f r else 0)"
proof (induction rows)
  case Nil
  then show ?case by simp
next
  case (Cons x rows)
  show ?case
  proof (cases "x = r")
    case True
    with Cons.prems have "t_id r \<notin> t_id ` set rows" by simp
    then have "\<forall>y\<in>set rows. t_id y \<noteq> t_id r" by (metis imageI)
    then have "filter (\<lambda>x. P x \<and> t_id x \<noteq> t_id r) rows = filter P rows"
      by (intro filter_cong) auto
    with True show ?thesis by simp
  next
    case False
    with Cons.prems have "r \<in> set rows" "t_id x \<noteq> t_id r" by auto
    with Cons show ?thesis by simp
  qed
qed

lemma month_expenses_delete:
  "month_expenses (snd (delete_transaction i d)) ym =
     filter (\<lambda>r. (in_month d ym r \<and> is_expense r) \<and> t_id r \<noteq> i) (transactions_tbl d)"
  by (simp add: month_expenses_def delete_transaction_def in_month_def conj_commute)

lemma same_data_refl [simp]: "same_data s s"
  by (simp add: same_data_def)

lemma same_data_isLoading [simp]: "same_data s (s'\<lparr>isLoading := b\<rparr>) = same_data s s'"
  by (simp add: same_data_def)

lemma try_catch_logs: "fst (try_catch body (\<lambda>e. console_error m) w) = Inr ()"
  by (simp add: try_catch_def console_error_def split: prod.splits sum.splits)

lemma funpow_tick_upd [simp]:
  "(tick ^^ n) (w\<lparr>db := d\<rparr>) = ((tick ^^ n) w)\<lparr>db := d\<rparr>"
  "(tick ^^ n) (w\<lparr>store := s\<rparr>) = ((tick ^^ n) w)\<lparr>store := s\<rparr>"
  by (induction n) simp_all

lemma funpow_tick_fields [simp]:
  "db ((tick ^^ n) w) = db w" "store ((tick ^^ n) w) = store w"
  "console ((tick ^^ n) w) = console w" "clock ((tick ^^ n) w) = clock w"
  by (induction n) simp_all

lemma funpow_tick_faults [simp]: "faults ((tick ^^ n) w) = drop n (faults w)"
  by (induction n arbitrary: w) (simp_all add: funpow_swap1 drop_Suc tl_drop)

lemma fails_within_add:
  "fails_within (m + n) w = (fails_within m w \<or> fails_within n ((tick ^^ m) w))"
  by (induction m arbitrary: w) (simp_all add: fails_within_Suc funpow_swap1)

lemma insert_member_of_run:
  "insert_member_of b m w =
     (if next_fails w then (Inl DbError, tick w)
      else (Inr (), (tick w)\<lparr>db := members_inserted b [m] (db w)\<rparr>))"
  by (simp add: insert_member_of_def runAsync_def members_inserted_def split: prod.splits)

lemma members_inserted_Cons:
  "members_inserted b (m # ms) d = members_inserted b ms (members_inserted b [m] d)"
  by (simp add: members_inserted_def)

lemma for_each_members_ok:
  "\<not> fails_within (length ms) w \<Longrightarrow>
   for_each ms (insert_member_of b) w =
     (Inr (), ((tick ^^ length ms) w)\<lparr>db := members_inserted b ms (db w)\<rparr>)"
proof (induction ms arbitrary: w)
  case Nil
  then show ?case by (simp add: return_act_def members_inserted_def)
next
  case (Cons m ms)
  then have now: "\<not> next_fails w" and later: "\<not> fails_within (length ms) (tick w)"
    by (simp_all add: fails_within_Suc)
  have step: "insert_member_of b m w = (Inr (), (tick w)\<lparr>db := members_inserted b [m] (db w)\<rparr>)"
    using now by (simp add: insert_member_of_run)
  show ?case
    by (simp add: bind_act_def step Cons.IH later funpow_swap1
        members_inserted_Cons [of b m ms])
qed

lemma for_each_members_fail:
  "faults w = replicate j False @ True # rest \<Longrightarrow> j < length ms \<Longrightarrow>
   for_each ms (insert_member_of b) w =
     (Inl DbError, w\<lparr>faults := rest, db := members_inserted b (take j ms) (db w)\<rparr>)"
proof (induction ms arbitrary: w j)
  case Nil
  then show ?case by simp
next
  case (Cons m ms)
  show ?case
  proof (cases j)
    case 0
    with Cons.prems have "insert_member_of b m w = (Inl DbError, tick w)"
      by (simp add: insert_member_of_run next_fails_def)
    with 0 Cons.prems show ?thesis
      by (simp add: bind_act_def tick_def members_inserted_def)
  next
    case (Suc i)
    with Cons.prems have now: "\<not> next_fails w"
      and rest: "faults ((tick w)\<lparr>db := members_inserted b [m] (db w)\<rparr>) = replicate i False @ True # rest"
      and i: "i < length ms"
      by (simp_all add: next_fails_def)
    have step: "insert_member_of b m w = (Inr (), (tick w)\<lparr>db := members_inserted b [m] (db w)\<rparr>)"
      using now by (simp add: insert_member_of_run)
    have eq: "for_each (m # ms) (insert_member_of b) w =
        for_each ms (insert_member_of b) ((tick w)\<lparr>db := members_inserted b [m] (db w)\<rparr>)"
      by (simp add: bind_act_def step)
    show ?thesis
      unfolding eq Cons.IH [OF rest i]
      by (simp add: Suc tick_def members_inserted_Cons [of b m "take i ms"])
  qed
qed

lemma for_each_members_failed:
  "fails_within (length ms) w \<Longrightarrow>
   fst (for_each ms (insert_member_of b) w) = Inl DbError \<and>
   store (snd (for_each ms (insert_member_of b) w)) = store w \<and>
   console (snd (for_each ms (insert_member_of b) w)) = console w"
proof (induction ms arbitrary: w)
  case Nil
  then show ?case by simp
next
  case (Cons m ms)
  show ?case
  proof (cases "next_fails w")
    case True
    then have "insert_member_of b m w = (Inl DbError, tick w)"
      by (simp add: insert_member_of_run)
    then show ?thesis by (simp add: bind_act_def)
  next
    case False
    then have step: "insert_member_of b m w = (Inr (), (tick w)\<lparr>db := members_inserted b [m] (db w)\<rparr>)"
      by (simp add: insert_member_of_run)
    from False Cons.prems
    have "fails_within (length ms) ((tick w)\<lparr>db := members_inserted b [m] (db w)\<rparr>)"
      by (simp add: fails_within_Suc)
    from Cons.IH [OF this] show ?thesis
      by (simp add: bind_act_def step)
  qed
qed

lemma fails_within_last:
  "fails_within (Suc n) w = (fails_within n w \<or> next_fails ((tick ^^ n) w))"
  using fails_within_add [of n "Suc 0" w] by (simp add: fails_within_Suc)

lemma silent_run: "fst (m w) = Inr () \<Longrightarrow> m w = (Inr (), snd (m w))"
  by (metis prod.collapse)

lemma calculateMonthSummary_silent: "fst (calculateMonthSummary sel w) = Inr ()"
  unfolding calculateMonthSummary_def by (rule try_catch_logs)

lemma fetch_keeps:
  "next_fails w \<Longrightarrow> same_data (store w) (store (snd (fetchCategories w)))"
  "next_fails w \<Longrightarrow> same_data (store w) (store (snd (fetchRecentTransactions w)))"
  "next_fails w \<Longrightarrow> same_data (store w) (store (snd (fetchSplitBills w)))"
  by (simp_all add: fetchCategories_run fetchRecentTransactions_run fetchSplitBills_run)

lemma addCategory_keeps:
  "fails_within 2 w \<Longrightarrow> same_data (store w) (store (snd (addCategory c w)))"
  by (auto simp add: addCategory_run fetchCategories_run eval_nat_numeral fails_within_Suc)

lemma updateCategory_keeps:
  "fails_within 2 w \<Longrightarrow> same_data (store w) (store (snd (updateCategory i c w)))"
  by (auto simp add: updateCategory_run fetchCategories_run eval_nat_numeral fails_within_Suc)

lemma deleteCategory_keeps:
  "fails_within 3 w \<Longrightarrow> same_data (store w) (store (snd (deleteCategory i w)))"
  by (auto simp add: deleteCategory_run fetchCategories_run eval_nat_numeral fails_within_Suc)

lemma deleteSplitBill_keeps:
  "fails_within 2 w \<Longrightarrow> same_data (store w) (store (snd (deleteSplitBill i w)))"
  by (auto simp add: deleteSplitBill_run fetchSplitBills_run eval_nat_numeral fails_within_Suc)

lemma calculateMonthSummary_keeps:
  "fails_within 3 w \<Longrightarrow> same_data (store w) (store (snd (calculateMonthSummary sel w)))"
  by (simp add: cms_fail)

lemma addSplitBill_run:
  "addSplitBill bill mems w =
     (Inr (),
      if next_fails w
      then (tick w)\<lparr>console := console w @ [''[FinanceStore] Error adding split bill:'']\<rparr>
      else (case for_each mems (insert_member_of (fst (insert_split_bill (nb_name bill)
                    (nb_date bill) (nb_total_amount bill) (nb_image_uri bill) (db w))))
                  ((tick w)\<lparr>db := snd (insert_split_bill (nb_name bill) (nb_date bill)
                     (nb_total_amount bill) (nb_image_uri bill) (db w))\<rparr>) of
              (Inl e, w') \<Rightarrow> w'\<lparr>console := console w' @ [''[FinanceStore] Error adding split bill:'']\<rparr>
            | (Inr u, w') \<Rightarrow> snd (fetchSplitBills w')))"
  by (simp add: addSplitBill_def try_catch_def bind_act_def runAsync_def console_error_def
      fetchSplitBills_run split: prod.splits sum.splits)

lemma addSplitBill_keeps:
  assumes "fails_within (length mems + 2) w"
  shows "same_data (store w) (store (snd (addSplitBill bill mems w)))"
proof (cases "next_fails w")
  case True
  then show ?thesis by (simp add: addSplitBill_run)
next
  case False
  define b where "b = fst (insert_split_bill (nb_name bill)
                    (nb_date bill) (nb_total_amount bill) (nb_image_uri bill) (db w))"
  define w1 where "w1 = (tick w)\<lparr>db := snd (insert_split_bill (nb_name bill) (nb_date bill)
                     (nb_total_amount bill) (nb_image_uri bill) (db w))\<rparr>"
  from assms False have rest: "fails_within (Suc (length mems)) w1"
    by (simp add: fails_within_Suc w1_def)
  show ?thesis
  proof (cases "fails_within (length mems) w1")
    case True
    from for_each_members_failed [OF True, of b]
    obtain w' where "for_each mems (insert_member_of b) w1 = (Inl DbError, w')"
      and "store w' = store w1"
      by (metis prod.collapse)
    then show ?thesis
      using False by (simp add: addSplitBill_run b_def [symmetric] w1_def [symmetric]) (simp add: w1_def)
  next
    case ok: False
    with rest have "next_fails ((tick ^^ length mems) w1)"
      by (simp add: fails_within_last)
    then show ?thesis
      using False
      by (simp add: addSplitBill_run b_def [symmetric] w1_def [symmetric]
          for_each_members_ok [OF ok] fetchSplitBills_run) (simp add: w1_def)
  qed
qed

lemma addTransaction_facts:
  "fst (addTransaction t w) = Inr ()"
  "isLoading (store (snd (addTransaction t w))) = False"
  "next_fails w \<Longrightarrow> same_data (store w) (store (snd (addTransaction t w)))"
proof -
  define body where "body = try_catch
          (bind_act
             (runAsync (insert_transaction (nt_category_id t) (nt_amount t)
                (nt_date t) (nt_note t) (nt_image_uri t)
                (or_default (nt_type t) expense)))
             (\<lambda>_. bind_act fetchRecentTransactions (\<lambda>_. calculateMonthSummary None)))
          (\<lambda>e. console_error ''[FinanceStore] Error adding transaction:'')"
  have run: "addTransaction t w =
      (case body (w\<lparr>store := (store w)\<lparr>isLoading := True\<rparr>\<rparr>) of
         (r, w') \<Rightarrow> (r, w'\<lparr>store := (store w')\<lparr>isLoading := False\<rparr>\<rparr>))"
    by (simp add: addTransaction_def body_def bind_act_def set_state_def try_finally_def
        split: prod.splits)
  have "fst (body w') = Inr ()" for w'
    unfolding body_def by (rule try_catch_logs)
  then show "fst (addTransaction t w) = Inr ()"
    by (simp add: run split: prod.splits) (metis fst_conv)
  show "isLoading (store (snd (addTransaction t w))) = False"
    by (simp add: run split: prod.splits)
  show "same_data (store w) (store (snd (addTransaction t w)))" if "next_fails w"
    using that
    by (simp add: run body_def try_catch_def bind_act_def runAsync_def console_error_def
        same_data_def split: prod.splits)
qed

lemma deleteTransaction_keeps:
  "next_fails w \<Longrightarrow> same_data (store w) (store (snd (deleteTransaction i w)))"
  by (simp add: deleteTransaction_def try_catch_def bind_act_def runAsync_def console_error_def)

lemma silent_ops:
  "fst (fetchCategories w) = Inr ()"
  "fst (addCategory c w) = Inr ()"
  "fst (updateCategory i p w) = Inr ()"
  "fst (deleteCategory i w) = Inr ()"
  "fst (fetchRecentTransactions w) = Inr ()"
  "fst (deleteTransaction i w) = Inr ()"
  "fst (fetchSplitBills w) = Inr ()"
  "fst (addSplitBill bill mems w) = Inr ()"
  "fst (deleteSplitBill i w) = Inr ()"
  unfolding fetchCategories_def addCategory_def updateCategory_def deleteCategory_def
    fetchRecentTransactions_def deleteTransaction_def fetchSplitBills_def addSplitBill_def
    deleteSplitBill_def
  by (rule try_catch_logs)+

lemma members_inserted_tables:
  "split_bills_tbl (members_inserted b ms d) = split_bills_tbl d"
  by (induction ms arbitrary: d) (simp_all add: members_inserted_def insert_split_bill_member_def)

lemma members_inserted_rows:
  "\<exists>added. split_bill_members_tbl (members_inserted b ms d) = split_bill_members_tbl d @ added \<and>
           map (\<lambda>r. (m_split_bill_id r, m_name r, m_share_amount r, m_is_me r)) added =
           map (\<lambda>m. (b, nm_name m, nm_share_amount m, if nm_is_me m then 1 else 0)) ms"
proof (induction ms arbitrary: d)
  case Nil
  then show ?case by (simp add: members_inserted_def)
next
  case (Cons m ms)
  define d1 where "d1 = members_inserted b [m] d"
  define row where "row = \<lparr>m_id = next_rowid (map m_id (split_bill_members_tbl d)),
      m_split_bill_id = b, m_name = nm_name m, m_share_amount = nm_share_amount m,
      m_is_me = (if nm_is_me m then 1 else 0)\<rparr>"
  have d1: "split_bill_members_tbl d1 = split_bill_members_tbl d @ [row]"
    by (simp add: d1_def row_def members_inserted_def insert_split_bill_member_def)
  from Cons.IH [of d1] obtain added where
    tbl: "split_bill_members_tbl (members_inserted b ms d1) = split_bill_members_tbl d1 @ added"
    and rows: "map (\<lambda>r. (m_split_bill_id r, m_name r, m_share_amount r, m_is_me r)) added =
           map (\<lambda>m. (b, nm_name m, nm_share_amount m, if nm_is_me m then 1 else 0)) ms"
    by blast
  have "split_bill_members_tbl (members_inserted b (m # ms) d) =
          split_bill_members_tbl d @ (row # added)"
    by (simp add: members_inserted_Cons [of b m ms] d1_def [symmetric] tbl d1)
  moreover have "map (\<lambda>r. (m_split_bill_id r, m_name r, m_share_amount r, m_is_me r)) (row # added) =
           map (\<lambda>m. (b, nm_name m, nm_share_amount m, if nm_is_me m then 1 else 0)) (m # ms)"
    by (simp add: rows) (simp add: row_def)
  ultimately show ?case by blast
qed

lemma addSplitBill_partial:
  assumes sched: "faults w = replicate (Suc j) False @ True # rest" and j: "j < length mems"
  shows "addSplitBill bill mems w =
     (Inr (), w\<lparr>faults := rest,
        db := members_inserted (next_rowid (map b_id (split_bills_tbl (db w)))) (take j mems)
                (snd (insert_split_bill (nb_name bill) (nb_date bill) (nb_total_amount bill)
                        (nb_image_uri bill) (db w))),
        console := console w @ [''[FinanceStore] Error adding split bill:'']\<rparr>)"
proof -
  define d1 where "d1 = snd (insert_split_bill (nb_name bill) (nb_date bill) (nb_total_amount bill)
                        (nb_image_uri bill) (db w))"
  have b: "fst (insert_split_bill (nb_name bill) (nb_date bill) (nb_total_amount bill)
                        (nb_image_uri bill) (db w)) = next_rowid (map b_id (split_bills_tbl (db w)))"
    by (simp add: insert_split_bill_def Let_def)
  from sched have first: "\<not> next_fails w"
    and then_: "faults ((tick w)\<lparr>db := d1\<rparr>) = replicate j False @ True # rest"
    by (simp_all add: next_fails_def)
  show ?thesis
    unfolding addSplitBill_run b d1_def [symmetric]
      for_each_members_fail [OF then_ j]
    using first by (simp add: tick_def)
qed

lemma yearMonth_june: "yearMonth \<lparr>getFullYear = 2024, getMonth = 5\<rparr> = ''2024-06''"
  by code_simp

lemma Math_round_values: "Math_round 99 = 99" "Math_round (1 / 2) = 1" "Math_round 0 = 0"
  by code_simp+

lemma demo_recent: "map t_id (select_recent_transactions demo_db) = [4, 2, 1, 3, 5]"
  by code_simp

lemma updateCategory_db:
  "db (snd (updateCategory i p w)) =
     (if next_fails w then db w
      else snd (update_category (or_string (pc_name p) []) (or_string (pc_icon p) [])
                  (or_string (pc_color p) []) i (db w)))"
  by (simp add: updateCategory_run fetchCategories_run)

lemma truncate_join: "transaction_row.truncate (join_category r c) = r"
  by (simp add: transaction_row.truncate_def join_category_def)

lemma set_recent: "set (select_recent_transactions d) \<subseteq> set (joined_transactions d)"
  using set_take_subset [of 20 "rev (sort_key (\<lambda>r. (t_date r, t_id r)) (joined_transactions d))"]
  by (simp add: select_recent_transactions_def)

lemma joined_origin:
  "t \<in> set (joined_transactions d) \<Longrightarrow>
   \<exists>r\<in>set (transactions_tbl d). \<exists>c\<in>set (categories_tbl d).
      c_id c = t_category_id r \<and> t = join_category r c"
proof -
  assume "t \<in> set (joined_transactions d)"
  then obtain r c where "r \<in> set (transactions_tbl d)" "c \<in> set (categories_tbl d)"
    "t_category_id r = c_id c" "t = join_category r c"
    by (auto simp: joined_transactions_def)
  then show ?thesis by (intro bexI [of _ r] bexI [of _ c]) simp_all
qed

lemma deleteCategory_transaction_cache:
  "transactions (store (snd (deleteCategory i w))) = transactions (store w)"
  by (simp add: deleteCategory_run fetchCategories_run)

lemma deleteCategory_tables:
  "\<not> next_fails w \<Longrightarrow>
   i \<notin> t_category_id ` set (transactions_tbl (db (snd (deleteCategory i w))))"
  by (auto simp add: deleteCategory_run fetchCategories_run delete_transactions_of_category_def
      delete_category_def)


subsection \<open>Rounding to a double\<close>







lemma round_even_lower: "y - 1 / 2 \<le> of_int (round_even y)"
  unfolding round_even_def by (auto simp: algebra_simps) linarith+















subsection \<open>The percentages, in doubles\<close>



subsection \<open>The month key, digit by digit\<close>







subsection \<open>Deleting a row, and the engine's sums\<close>

lemma delete_transaction_engine [simp]:
  "sql_sum (snd (delete_transaction i d)) = sql_sum d"
  by (simp add: delete_transaction_def)

lemma delete_transaction_total [simp]:
  "engine_total (snd (delete_transaction i d)) = engine_total d"
  by (simp add: engine_total_def fun_eq_iff)

lemma others_of_uncounted:
  assumes "distinct (map t_id rows)" and "r \<in> set rows" and "\<not> P r"
  shows "filter (\<lambda>x. t_id x \<noteq> t_id r) (filter P rows) = filter P rows"
proof -
  have "t_id x \<noteq> t_id r" if "x \<in> set rows" "P x" for x
  proof
    assume "t_id x = t_id r"
    with assms(1,2) that(1) have "x = r"
      by (meson distinct_map inj_onD)
    with assms(3) that(2) show False by simp
  qed
  then have "\<forall>x\<in>set (filter P rows). t_id x \<noteq> t_id r"
    by simp
  then show ?thesis
    by (simp only: filter_id_conv)
qed

lemma engine_total_exact: "sums_exactly d xs \<Longrightarrow> engine_total d xs = sum_list xs"
  by (auto simp: sums_exactly_def engine_total_def)

subsection \<open>The small database, evaluated\<close>

lemma demo_world_fields:
  "db (demo_world fs) = demo_db"
  "clock (demo_world fs) = \<lparr>getFullYear = 2024, getMonth = 5\<rparr>"
  "faults (demo_world fs) = fs"
  "console (demo_world fs) = []"
  "categories (store (demo_world fs)) = map as_Category (categories_tbl demo_db)"
  "transactions (store (demo_world fs)) = select_recent_transactions demo_db"
  by (simp_all add: demo_world_def)

lemma demo_world_of_fields:
  "db (demo_world_of rows) = demo_db\<lparr>transactions_tbl := rows\<rparr>"
  "clock (demo_world_of rows) = \<lparr>getFullYear = 2024, getMonth = 5\<rparr>"
  "faults (demo_world_of rows) = []"
  "categories (store (demo_world_of rows)) = map as_Category (categories_tbl demo_db)"
  by (simp_all add: demo_world_of_def demo_world_def)

lemma demo_db_fields:
  "sql_sum demo_db = double_sum"
  "strftime_Ym demo_db = (\<lambda>s. Some (take 7 s))"
  "map c_id (categories_tbl demo_db) = [1, 2, 3, 4]"
  by (simp_all add: demo_db_def)

lemma yearMonth_may: "yearMonth \<lparr>getFullYear = 2024, getMonth = 4\<rparr> = ''2024-05''"
  by code_simp

lemma demo_month: "target_month None (demo_world fs) = ''2024-06''"
  "target_month None (demo_world_of rows) = ''2024-06''"
  "target_month (Some \<lparr>getFullYear = 2024, getMonth = 4\<rparr>) w = ''2024-05''"
  by (simp_all add: target_month_def demo_world_fields demo_world_of_fields yearMonth_june
      yearMonth_may)

lemma demo_ok: "\<not> fails_within n (demo_world [])" "\<not> next_fails (demo_world [])"
  "\<not> fails_within n (demo_world_of rows)"
  by (simp_all add: fails_within_def next_fails_def demo_world_fields demo_world_of_fields)

lemma double_sums:
  "double_sum [198, 1, 1] = 200" "double_sum [500] = 500" "double_sum [198] = 198"
  "double_sum [1] = 1" "double_sum [1, 1] = 2" "double_sum [70, 5] = 75" "double_sum [70] = 70"
  "double_sum [23, 17] = 40" "double_sum [23] = 23" "double_sum [17] = 17"
  "double_sum [- 1, 9] = 8" "double_sum [- 1] = - 1" "double_sum [9] = 9"
  "double_sum [3602879701896397 / 36028797018963968, 3602879701896397 / 18014398509481984]
     = 1351079888211149 / 4503599627370496"
  "double_sum [3602879701896397 / 36028797018963968] = 3602879701896397 / 36028797018963968"
  by code_simp+

lemma double_differences:
  "js_minus 500 200 = 300" "js_minus 0 75 = - 75"
  by code_simp+

lemma double_percentages:
  "Math_round (js_times (js_divide 198 200) 100) = 99"
  "Math_round (js_times (js_divide 1 200) 100) = 1"
  "Math_round (js_times (js_divide 0 200) 100) = 0"
  "Math_round (js_times (js_divide 70 75) 100) = 93"
  "Math_round (js_times (js_divide 0 75) 100) = 0"
  "Math_round (js_times (js_divide 23 40) 100) = 57"
  "Math_round (js_times (js_divide 17 40) 100) = 43"
  "Math_round (js_times (js_divide 0 40) 100) = 0"
  "Math_round (js_times (js_divide (- 1) 8) 100) = - 12"
  "Math_round (js_times (js_divide 9 8) 100) = 113"
  "Math_round (js_times (js_divide 0 8) 100) = 0"
  by code_simp+

lemmas demo_eval = cms_ok demo_ok summary_state_def demo_month demo_world_fields
  demo_world_of_fields with_stats_breakdown spent_in_def engine_total_def month_expenses_def
  month_incomes_def in_month_def is_expense_def is_income_def as_Category_def demo_db_def
  double_sums double_differences double_percentages

lemma demo_summary:
  "totalExpense (store (snd (calculateMonthSummary None (demo_world [])))) = 200"
  "map percentage (categories (store (snd (calculateMonthSummary None (demo_world [])))))
     = [Some 99, Some 1, Some 1, Some 0]"
  by (simp_all add: demo_eval)

lemma deleteTransaction_summary_fails:
  assumes "\<not> next_fails w" and "\<not> next_fails (tick w)" and "fails_within 3 (tick (tick w))"
  shows "store (snd (deleteTransaction i w)) =
           (store w)\<lparr>transactions := select_recent_transactions (snd (delete_transaction i (db w)))\<rparr>"
proof -
  define w2 where "w2 = (tick (tick w))\<lparr>db := snd (delete_transaction i (db w)),
      store := (store w)\<lparr>transactions := select_recent_transactions (snd (delete_transaction i (db w)))\<rparr>\<rparr>"
  have run: "calculateMonthSummary None w2 = (Inr (), snd (calculateMonthSummary None w2))"
    by (rule silent_run) (rule calculateMonthSummary_silent)
  have "deleteTransaction i w =
      try_catch (calculateMonthSummary None)
        (\<lambda>e. console_error ''[FinanceStore] Error deleting transaction:'') w2"
    using assms(1,2)
    by (simp add: deleteTransaction_def try_catch_def bind_act_def runAsync_def
        fetchRecentTransactions_run w2_def split: prod.splits)
  also have "\<dots> = (Inr (), snd (calculateMonthSummary None w2))"
    by (subst try_catch_def, subst run) simp
  finally show ?thesis
    using assms(3) by (simp add: cms_fail w2_def)
qed

lemma demo_recent_after_delete:
  "map t_id (select_recent_transactions (snd (delete_transaction 1 demo_db))) = [4, 2, 3, 5]"
  by code_simp

lemma demo_june_without_salary:
  "engine_total demo_db
     (map t_amount (month_expenses (snd (delete_transaction 3 demo_db)) ''2024-06'')) = 200"
  by (simp add: month_expenses_def in_month_def is_expense_def delete_transaction_def demo_db_def
      engine_total_def double_sums)

lemma demo_fractions:
  "engine_total (demo_db\<lparr>transactions_tbl := fraction_rows\<rparr>)
     (map t_amount (month_expenses (demo_db\<lparr>transactions_tbl := fraction_rows\<rparr>) ''2024-06''))
     = 1351079888211149 / 4503599627370496"
  "engine_total (demo_db\<lparr>transactions_tbl := fraction_rows\<rparr>)
     (map t_amount (month_expenses
        (snd (delete_transaction 2 (demo_db\<lparr>transactions_tbl := fraction_rows\<rparr>))) ''2024-06''))
     = 3602879701896397 / 36028797018963968"
  by (simp_all add: month_expenses_def in_month_def is_expense_def delete_transaction_def
      demo_db_def fraction_rows_def engine_total_def double_sums)

lemma fraction_difference:
  "(3602879701896397 / 36028797018963968 :: rat)
     \<noteq> 1351079888211149 / 4503599627370496 - 3602879701896397 / 18014398509481984"
  "3602879701896397 / 36028797018963968
     \<noteq> js_minus (1351079888211149 / 4503599627370496)
          (3602879701896397 / 18014398509481984)"
  by code_simp+

section \<open>The claims\<close>



text \<open>
  C2. deleteCategory on the small database, no call rejected: the transactions of
  category 1 and the category row are gone from the tables and the category cache is
  refreshed, but the transaction cache is not: it still holds the two transactions of
  category 1.
\<close>

theorem deleteCategory_leaves_transaction_cache:
  "map t_category_id (transactions_tbl (db (snd (deleteCategory 1 (demo_world []))))) = [2, 4, 3, 9] \<and>
   map c_id (categories_tbl (db (snd (deleteCategory 1 (demo_world []))))) = [2, 3, 4] \<and>
   map c_id (categories (store (snd (deleteCategory 1 (demo_world []))))) = [2, 3, 4] \<and>
   map t_category_id (transactions (store (snd (deleteCategory 1 (demo_world []))))) = [3, 2, 1, 4, 1]"
  by code_simp

text \<open>
  C3, as amended. No action of the store throws, whatever calls on the database are
  rejected. When one of the calls it makes is rejected, fetchCategories, addCategory,
  updateCategory, deleteCategory, fetchRecentTransactions, calculateMonthSummary,
  fetchSplitBills, addSplitBill and deleteSplitBill leave the data fields of the store
  as they were; addTransaction and deleteTransaction do so when their INSERT or DELETE is
  rejected. addTransaction always ends with isLoading false.
\<close>

theorem failures_are_absorbed:
  "fst (fetchCategories w) = Inr () \<and> fst (addCategory c w) = Inr () \<and>
   fst (updateCategory i p w) = Inr () \<and> fst (deleteCategory i w) = Inr () \<and>
   fst (addTransaction t w) = Inr () \<and> fst (fetchRecentTransactions w) = Inr () \<and>
   fst (deleteTransaction i w) = Inr () \<and> fst (calculateMonthSummary sel w) = Inr () \<and>
   fst (fetchSplitBills w) = Inr () \<and> fst (addSplitBill bill mems w) = Inr () \<and>
   fst (deleteSplitBill i w) = Inr () \<and>
   (fails_within 1 w \<longrightarrow> same_data (store w) (store (snd (fetchCategories w)))) \<and>
   (fails_within 2 w \<longrightarrow> same_data (store w) (store (snd (addCategory c w)))) \<and>
   (fails_within 2 w \<longrightarrow> same_data (store w) (store (snd (updateCategory i p w)))) \<and>
   (fails_within 3 w \<longrightarrow> same_data (store w) (store (snd (deleteCategory i w)))) \<and>
   (fails_within 1 w \<longrightarrow> same_data (store w) (store (snd (fetchRecentTransactions w)))) \<and>
   (fails_within 3 w \<longrightarrow> same_data (store w) (store (snd (calculateMonthSummary sel w)))) \<and>
   (fails_within 1 w \<longrightarrow> same_data (store w) (store (snd (fetchSplitBills w)))) \<and>
   (fails_within (length mems + 2) w \<longrightarrow>
      same_data (store w) (store (snd (addSplitBill bill mems w)))) \<and>
   (fails_within 2 w \<longrightarrow> same_data (store w) (store (snd (deleteSplitBill i w)))) \<and>
   (fails_within 1 w \<longrightarrow> same_data (store w) (store (snd (addTransaction t w)))) \<and>
   (fails_within 1 w \<longrightarrow> same_data (store w) (store (snd (deleteTransaction i w)))) \<and>
   isLoading (store (snd (addTransaction t w))) = False"
proof -
  have one: "fails_within 1 w = next_fails w"
    by (simp add: fails_within_Suc)
  show ?thesis
    unfolding one
    by (intro conjI impI silent_ops addTransaction_facts calculateMonthSummary_silent
        fetch_keeps addCategory_keeps updateCategory_keeps deleteCategory_keeps
        calculateMonthSummary_keeps addSplitBill_keeps deleteSplitBill_keeps
        deleteTransaction_keeps)
qed

text \<open>
  C3 with the first call on the database rejected: every action leaves the data fields
  as they were.
\<close>

theorem failures_are_absorbed_witness:
  "fails_within 1 (demo_world [True]) \<and> fails_within 2 (demo_world [True]) \<and>
   fails_within 3 (demo_world [True]) \<and> fails_within (length demo_members + 2) (demo_world [True]) \<and>
   same_data (store (demo_world [True])) (store (snd (fetchCategories (demo_world [True])))) \<and>
   same_data (store (demo_world [True])) (store (snd (addCategory demo_category (demo_world [True])))) \<and>
   same_data (store (demo_world [True])) (store (snd (updateCategory 1 demo_partial (demo_world [True])))) \<and>
   same_data (store (demo_world [True])) (store (snd (deleteCategory 1 (demo_world [True])))) \<and>
   same_data (store (demo_world [True])) (store (snd (fetchRecentTransactions (demo_world [True])))) \<and>
   same_data (store (demo_world [True])) (store (snd (calculateMonthSummary None (demo_world [True])))) \<and>
   same_data (store (demo_world [True])) (store (snd (fetchSplitBills (demo_world [True])))) \<and>
   same_data (store (demo_world [True]))
     (store (snd (addSplitBill demo_bill demo_members (demo_world [True])))) \<and>
   same_data (store (demo_world [True])) (store (snd (deleteSplitBill 1 (demo_world [True])))) \<and>
   same_data (store (demo_world [True])) (store (snd (addTransaction demo_transaction (demo_world [True])))) \<and>
   same_data (store (demo_world [True])) (store (snd (deleteTransaction 1 (demo_world [True])))) \<and>
   fst (addTransaction demo_transaction (demo_world [True])) = Inr () \<and>
   isLoading (store (snd (addTransaction demo_transaction (demo_world [True])))) = False"
proof -
  have fails: "fails_within 1 (demo_world [True])" "fails_within 2 (demo_world [True])"
    "fails_within 3 (demo_world [True])"
    "fails_within (length demo_members + 2) (demo_world [True])"
    by (simp_all add: fails_within_def demo_world_fields)
  from failures_are_absorbed [where w = "demo_world [True]" and c = demo_category and i = 1
      and p = demo_partial and t = demo_transaction and sel = None and bill = demo_bill
      and mems = demo_members] fails
  show ?thesis by simp
qed

text \<open>
  C3 as it was stated fails: deleteTransaction 1, its DELETE and the query of
  fetchRecentTransactions succeeding and the first query of calculateMonthSummary rejected,
  has replaced the cached transactions.
\<close>

theorem failures_are_absorbed_counterexample:
  "fails_within 5 (demo_world [False, False, True]) \<and>
   map t_id (transactions (store (demo_world [False, False, True]))) = [4, 2, 1, 3, 5] \<and>
   map t_id (transactions (store (snd (deleteTransaction 1 (demo_world [False, False, True])))))
     = [4, 2, 3, 5] \<and>
   \<not> same_data (store (demo_world [False, False, True]))
       (store (snd (deleteTransaction 1 (demo_world [False, False, True]))))"
proof -
  have after: "store (snd (deleteTransaction 1 (demo_world [False, False, True]))) =
      (store (demo_world [False, False, True]))
        \<lparr>transactions := select_recent_transactions (snd (delete_transaction 1 demo_db))\<rparr>"
    by (subst deleteTransaction_summary_fails)
       (simp_all add: next_fails_def fails_within_def demo_world_fields)
  have differ: "select_recent_transactions (snd (delete_transaction 1 demo_db)) \<noteq>
      select_recent_transactions demo_db"
    using demo_recent_after_delete demo_recent by auto
  show ?thesis
    by (simp add: after same_data_def demo_world_fields demo_recent demo_recent_after_delete
        differ fails_within_def)
qed

text \<open>
  C4. updateCategory keeps table \<open>categories\<close> at its length and every row at its place,
  with its id, budget_limit and category_type; a row with another id is unchanged; in a
  row with the given id, when the UPDATE is not rejected, name, icon and color are the
  values of the partial input, the empty string for a field left out. A rejected
  UPDATE changes no row, and the other tables are never touched.
\<close>

theorem updateCategory_writes_three_columns:
  fixes w :: world and i :: int and p :: category_partial
  defines "old \<equiv> categories_tbl (db w)"
  defines "new \<equiv> categories_tbl (db (snd (updateCategory i p w)))"
  shows "length new = length old \<and>
         (\<forall>k<length old.
            c_id (new ! k) = c_id (old ! k) \<and>
            c_budget_limit (new ! k) = c_budget_limit (old ! k) \<and>
            c_category_type (new ! k) = c_category_type (old ! k) \<and>
            (c_id (old ! k) \<noteq> i \<longrightarrow> new ! k = old ! k) \<and>
            (c_id (old ! k) = i \<and> \<not> next_fails w \<longrightarrow>
               c_name (new ! k) = (case pc_name p of None \<Rightarrow> [] | Some s \<Rightarrow> s) \<and>
               c_icon (new ! k) = (case pc_icon p of None \<Rightarrow> [] | Some s \<Rightarrow> s) \<and>
               c_color (new ! k) = (case pc_color p of None \<Rightarrow> [] | Some s \<Rightarrow> s))) \<and>
         (next_fails w \<longrightarrow> new = old) \<and>
         transactions_tbl (db (snd (updateCategory i p w))) = transactions_tbl (db w) \<and>
         split_bills_tbl (db (snd (updateCategory i p w))) = split_bills_tbl (db w) \<and>
         split_bill_members_tbl (db (snd (updateCategory i p w))) = split_bill_members_tbl (db w)"
  by (simp add: old_def new_def updateCategory_db update_category_def or_string_empty)

text \<open>
  C4 on the small database: updateCategory on category 2 with a partial input that gives
  a name, a budget limit and a type but no icon and no color.
\<close>

theorem updateCategory_writes_three_columns_witness:
  "1 < length (categories_tbl (db (demo_world []))) \<and>
   c_id (categories_tbl (db (demo_world [])) ! 1) = 2 \<and>
   \<not> next_fails (demo_world []) \<and>
   pc_name demo_partial = Some ''Commute'' \<and> pc_icon demo_partial = None \<and>
   pc_color demo_partial = None \<and>
   c_name (categories_tbl (db (snd (updateCategory 2 demo_partial (demo_world [])))) ! 1) = ''Commute'' \<and>
   c_icon (categories_tbl (db (snd (updateCategory 2 demo_partial (demo_world [])))) ! 1) = [] \<and>
   c_color (categories_tbl (db (snd (updateCategory 2 demo_partial (demo_world [])))) ! 1) = [] \<and>
   c_budget_limit (categories_tbl (db (snd (updateCategory 2 demo_partial (demo_world [])))) ! 1) = 100 \<and>
   c_category_type (categories_tbl (db (snd (updateCategory 2 demo_partial (demo_world [])))) ! 1)
     = Some expense"
proof -
  have row: "1 < length (categories_tbl (db (demo_world [])))"
    "c_id (categories_tbl (db (demo_world [])) ! 1) = 2"
    "c_budget_limit (categories_tbl (db (demo_world [])) ! 1) = 100"
    "c_category_type (categories_tbl (db (demo_world [])) ! 1) = Some expense"
    by (simp_all add: demo_world_fields demo_db_def)
  have input: "pc_name demo_partial = Some ''Commute''" "pc_icon demo_partial = None"
    "pc_color demo_partial = None"
    by (simp_all add: demo_partial_def)
  note all = updateCategory_writes_three_columns [where w = "demo_world []" and i = 2 and p = demo_partial,
      THEN conjunct2, THEN conjunct1, rule_format, OF row(1)]
  from all row input demo_ok(2) show ?thesis
    by simp
qed

text \<open>
  C5. The INSERT of the bill and of the first \<open>j\<close> members succeed and the INSERT of
  member \<open>j + 1\<close> is rejected (\<open>j + 1 \<le> N\<close>): addSplitBill does not throw and logs one
  line; table \<open>split_bills\<close> has gained the bill row, under the id \<open>lastInsertRowId\<close>
  gave; table \<open>split_bill_members\<close> has gained exactly one row for each of the first
  \<open>j\<close> members, with that bill id, the member's name and share, and \<open>is_me\<close> 1 or 0;
  the store is not refreshed; and a fetchSplitBills that follows and succeeds has the
  bill in the cache.
\<close>

theorem addSplitBill_partial_failure:
  fixes w :: world and bill :: bill_input and mems :: "member_input list"
  defines "billId \<equiv> next_rowid (map b_id (split_bills_tbl (db w)))"
  defines "billRow \<equiv> \<lparr>b_id = billId, b_date = nb_date bill, b_name = nb_name bill,
             b_total_amount = nb_total_amount bill, b_image_uri = nb_image_uri bill,
             b_created_at = default_created_at (db w)\<rparr>"
  defines "w' \<equiv> snd (addSplitBill bill mems w)"
  assumes sched: "faults w = replicate (Suc j) False @ True # rest" and j: "j < length mems"
  shows "fst (addSplitBill bill mems w) = Inr () \<and>
         console w' = console w @ [''[FinanceStore] Error adding split bill:''] \<and>
         store w' = store w \<and>
         faults w' = rest \<and>
         split_bills_tbl (db w') = split_bills_tbl (db w) @ [billRow] \<and>
         (\<exists>added. split_bill_members_tbl (db w') = split_bill_members_tbl (db w) @ added \<and>
            map (\<lambda>r. (m_split_bill_id r, m_name r, m_share_amount r, m_is_me r)) added =
            map (\<lambda>m. (billId, nm_name m, nm_share_amount m, if nm_is_me m then 1 else 0))
              (take j mems)) \<and>
         (\<not> next_fails w' \<longrightarrow>
            as_SplitBill billRow \<in> set (splitBills (store (snd (fetchSplitBills w')))))"
proof -
  define d1 where "d1 = snd (insert_split_bill (nb_name bill) (nb_date bill) (nb_total_amount bill)
                        (nb_image_uri bill) (db w))"
  have w': "w' = w\<lparr>faults := rest, db := members_inserted billId (take j mems) d1,
        console := console w @ [''[FinanceStore] Error adding split bill:'']\<rparr>"
    unfolding w'_def billId_def d1_def addSplitBill_partial [OF sched j] by simp
  have d1_bills: "split_bills_tbl d1 = split_bills_tbl (db w) @ [billRow]"
    and d1_mems: "split_bill_members_tbl d1 = split_bill_members_tbl (db w)"
    by (simp_all add: d1_def insert_split_bill_def Let_def billRow_def billId_def)
  have bills: "split_bills_tbl (db w') = split_bills_tbl (db w) @ [billRow]"
    by (simp add: w' members_inserted_tables d1_bills)
  have mems: "\<exists>added. split_bill_members_tbl (db w') = split_bill_members_tbl (db w) @ added \<and>
            map (\<lambda>r. (m_split_bill_id r, m_name r, m_share_amount r, m_is_me r)) added =
            map (\<lambda>m. (billId, nm_name m, nm_share_amount m, if nm_is_me m then 1 else 0))
              (take j mems)"
    using members_inserted_rows [of billId "take j mems" d1] by (simp add: w' d1_mems)
  have fetch: "as_SplitBill billRow \<in> set (splitBills (store (snd (fetchSplitBills w'))))"
    if "\<not> next_fails w'"
    using that by (simp add: fetchSplitBills_run select_split_bills_def bills)
  show ?thesis
    using bills mems fetch by (simp add: silent_ops) (simp add: w')
qed

text \<open>
  C5 on the small database: three members, the INSERT of the second rejected.
\<close>

theorem addSplitBill_partial_failure_witness:
  "faults (demo_world [False, False, True]) = replicate (Suc 1) False @ True # [] \<and>
   1 < length demo_members \<and>
   fst (addSplitBill demo_bill demo_members (demo_world [False, False, True])) = Inr () \<and>
   console (snd (addSplitBill demo_bill demo_members (demo_world [False, False, True])))
     = [''[FinanceStore] Error adding split bill:''] \<and>
   map b_id (split_bills_tbl (db (snd (addSplitBill demo_bill demo_members
       (demo_world [False, False, True]))))) = [1] \<and>
   map b_name (split_bills_tbl (db (snd (addSplitBill demo_bill demo_members
       (demo_world [False, False, True]))))) = [''Dinner''] \<and>
   map (\<lambda>r. (m_split_bill_id r, m_name r, m_share_amount r, m_is_me r))
     (split_bill_members_tbl (db (snd (addSplitBill demo_bill demo_members
       (demo_world [False, False, True]))))) = [(1, ''me'', 30, 1)] \<and>
   as_SplitBill \<lparr>b_id = 1, b_date = ''2024-06-22'', b_name = ''Dinner'', b_total_amount = 90,
       b_image_uri = None, b_created_at = None\<rparr>
     \<in> set (splitBills (store (snd (fetchSplitBills (snd (addSplitBill demo_bill demo_members
           (demo_world [False, False, True])))))))"
proof -
  have sched: "faults (demo_world [False, False, True]) = replicate (Suc 1) False @ True # []"
    by (simp add: demo_world_fields)
  have j: "1 < length demo_members"
    by (simp add: demo_members_def)
  note T = addSplitBill_partial_failure [OF sched j, where bill = demo_bill]
  have empty: "split_bills_tbl (db (demo_world [False, False, True])) = []"
    "split_bill_members_tbl (db (demo_world [False, False, True])) = []"
    "default_created_at (db (demo_world [False, False, True])) = None"
    by (simp_all add: demo_world_fields demo_db_def)
  have bill: "next_rowid [] = 1"
    by (simp add: next_rowid_def)
  from T have quiet: "fst (addSplitBill demo_bill demo_members (demo_world [False, False, True])) = Inr ()"
    by simp
  from T have logged: "console (snd (addSplitBill demo_bill demo_members
      (demo_world [False, False, True]))) = [''[FinanceStore] Error adding split bill:'']"
    by (simp add: demo_world_fields)
  from T have nf: "\<not> next_fails (snd (addSplitBill demo_bill demo_members
      (demo_world [False, False, True])))"
    by (simp add: next_fails_def)
  from T have bills: "split_bills_tbl (db (snd (addSplitBill demo_bill demo_members
      (demo_world [False, False, True])))) =
        [\<lparr>b_id = 1, b_date = ''2024-06-22'', b_name = ''Dinner'', b_total_amount = 90,
          b_image_uri = None, b_created_at = None\<rparr>]"
    by (simp add: bill empty demo_bill_def)
  from T have "\<exists>added. split_bill_members_tbl (db (snd (addSplitBill demo_bill demo_members
        (demo_world [False, False, True])))) = added \<and>
      map (\<lambda>r. (m_split_bill_id r, m_name r, m_share_amount r, m_is_me r)) added =
      map (\<lambda>m. (1, nm_name m, nm_share_amount m, if nm_is_me m then 1 else 0)) (take 1 demo_members)"
    by (simp add: bill empty)
  then have rows: "map (\<lambda>r. (m_split_bill_id r, m_name r, m_share_amount r, m_is_me r))
     (split_bill_members_tbl (db (snd (addSplitBill demo_bill demo_members
       (demo_world [False, False, True]))))) = [(1, ''me'', 30, 1)]"
    by (simp add: demo_members_def)
  from T nf have cached: "as_SplitBill \<lparr>b_id = 1, b_date = ''2024-06-22'', b_name = ''Dinner'',
       b_total_amount = 90, b_image_uri = None, b_created_at = None\<rparr>
     \<in> set (splitBills (store (snd (fetchSplitBills (snd (addSplitBill demo_bill demo_members
           (demo_world [False, False, True])))))))"
    by (simp add: bill empty demo_bill_def)
  from sched j quiet logged bills rows cached show ?thesis
    by simp
qed

text \<open>
  C6. calculateMonthSummary called twice in a row for the same month, no query failing,
  leaves the store exactly as one call does (balance, totalIncome, totalExpense and every
  category's totalSpent and percentage among its fields), and the database as it was.
\<close>

theorem calculateMonthSummary_idempotent:
  assumes "\<not> fails_within 6 w"
  shows "store (snd (calculateMonthSummary selectedMonth (snd (calculateMonthSummary selectedMonth w))))
           = store (snd (calculateMonthSummary selectedMonth w)) \<and>
         db (snd (calculateMonthSummary selectedMonth (snd (calculateMonthSummary selectedMonth w))))
           = db w"
proof -
  from assms have first: "\<not> fails_within 3 w"
    and second: "\<not> fails_within 3 (tick (tick (tick w)))"
    by (simp_all add: eval_nat_numeral fails_within_Suc)
  show ?thesis
    by (simp add: cms_ok [OF first] cms_ok second summary_state_idem)
qed

text \<open>
  C6 on the small database.
\<close>

theorem calculateMonthSummary_idempotent_witness:
  "\<not> fails_within 6 (demo_world []) \<and>
   store (snd (calculateMonthSummary None (snd (calculateMonthSummary None (demo_world [])))))
     = store (snd (calculateMonthSummary None (demo_world []))) \<and>
   db (snd (calculateMonthSummary None (snd (calculateMonthSummary None (demo_world [])))))
     = db (demo_world []) \<and>
   totalExpense (store (snd (calculateMonthSummary None (demo_world [])))) = 200"
  using calculateMonthSummary_idempotent [OF demo_ok(1), of None] demo_ok(1) [of 6]
  by (simp add: demo_summary)




text \<open>
  C8, as amended. For a row of table \<open>transactions\<close> with a unique id, no call on the
  database failing, deleteTransaction followed by calculateMonthSummary for a month gives
  as totalExpense the engine's \<open>SUM\<close> of the amounts of the month's other expense rows (0
  when there is none). It is the totalExpense calculateMonthSummary gave before when the
  row is not an expense (type \<open>expense\<close> or NULL) dated in that month; and it is that
  totalExpense less the row's amount when the row is one and the engine's \<open>SUM\<close> is the
  exact sum of the month's expense amounts, with the row and without it.
\<close>

theorem deleteTransaction_lowers_totalExpense:
  fixes w :: world and selectedMonth :: "Date option" and r :: transaction_row
  defines "ym \<equiv> yearMonth (case selectedMonth of Some d \<Rightarrow> d | None \<Rightarrow> clock w)"
  defines "counted \<equiv> \<lambda>x. strftime_Ym (db w) (t_date x) = Some ym \<and>
                          (t_type x = Some expense \<or> t_type x = None)"
  defines "expenses \<equiv> filter counted (transactions_tbl (db w))"
  defines "others \<equiv> filter (\<lambda>x. t_id x \<noteq> t_id r) expenses"
  defines "before \<equiv> totalExpense (store (snd (calculateMonthSummary selectedMonth w)))"
  defines "after \<equiv> totalExpense (store (snd (calculateMonthSummary selectedMonth
                       (snd (deleteTransaction (t_id r) w)))))"
  assumes ok: "\<not> fails_within 8 w"
    and row: "r \<in> set (transactions_tbl (db w))"
    and ids: "distinct (map t_id (transactions_tbl (db w)))"
  shows "after = (if others = [] then 0 else sql_sum (db w) (map t_amount others)) \<and>
         (\<not> counted r \<longrightarrow> after = before) \<and>
         (counted r \<and> sums_exactly (db w) (map t_amount expenses) \<and>
          sums_exactly (db w) (map t_amount others) \<longrightarrow> after = before - t_amount r)"
proof -
  from ok have del: "\<not> fails_within 5 w" and first: "\<not> fails_within 3 w"
    and later: "\<not> fails_within 3 (tick (tick (tick (tick (tick w)))))"
    by (simp_all add: eval_nat_numeral fails_within_Suc)
  have ex: "expenses = month_expenses (db w) (target_month selectedMonth w)"
    by (simp add: expenses_def counted_def ym_def month_expenses_eq target_month_def)
  have rest: "month_expenses (snd (delete_transaction (t_id r) (db w)))
      (target_month selectedMonth w) = others"
    by (simp only: month_expenses_delete)
      (auto simp: others_def ex month_expenses_def intro: filter_cong)
  have a: "after = engine_total (db w) (map t_amount others)"
    by (simp add: after_def deleteTransaction_ok [OF del] cms_ok later summary_state_def rest
        engine_total_def)
  have b: "before = engine_total (db w) (map t_amount expenses)"
    by (simp add: before_def cms_ok [OF first] summary_state_def ex)
  have same: "after = before" if "\<not> counted r"
  proof -
    from ids row that have "others = expenses"
      unfolding others_def expenses_def by (rule others_of_uncounted)
    with a b show ?thesis by simp
  qed
  have less: "after = before - t_amount r"
    if "counted r" "sums_exactly (db w) (map t_amount expenses)"
      "sums_exactly (db w) (map t_amount others)"
  proof -
    have "others = filter (\<lambda>x. counted x \<and> t_id x \<noteq> t_id r) (transactions_tbl (db w))"
      by (simp add: others_def expenses_def conj_commute)
    then have "sum_list (map t_amount others) =
        sum_list (map t_amount expenses) - (if counted r then t_amount r else 0)"
      unfolding expenses_def using sum_without_row [OF ids row, of t_amount counted] by simp
    with that a b show ?thesis
      by (simp add: engine_total_exact)
  qed
  from a same less show ?thesis
    by (simp add: engine_total_def)
qed

text \<open>
  C8 on the small database: deleting the June expense of 198 takes totalExpense from 200
  to 2.
\<close>

theorem deleteTransaction_lowers_totalExpense_witness:
  "\<not> fails_within 8 (demo_world []) \<and>
   transactions_tbl (db (demo_world [])) ! 0 \<in> set (transactions_tbl (db (demo_world []))) \<and>
   distinct (map t_id (transactions_tbl (db (demo_world [])))) \<and>
   t_id (transactions_tbl (db (demo_world [])) ! 0) = 1 \<and>
   t_amount (transactions_tbl (db (demo_world [])) ! 0) = 198 \<and>
   t_type (transactions_tbl (db (demo_world [])) ! 0) = Some expense \<and>
   strftime_Ym (db (demo_world [])) (t_date (transactions_tbl (db (demo_world [])) ! 0))
     = Some ''2024-06'' \<and>
   sums_exactly (db (demo_world []))
     (map t_amount (month_expenses (db (demo_world [])) ''2024-06'')) \<and>
   sums_exactly (db (demo_world []))
     (map t_amount (month_expenses (snd (delete_transaction 1 (db (demo_world [])))) ''2024-06'')) \<and>
   totalExpense (store (snd (calculateMonthSummary None (demo_world [])))) = 200 \<and>
   totalExpense (store (snd (calculateMonthSummary None (snd (deleteTransaction 1 (demo_world []))))))
     = 2"
proof -
  have row: "transactions_tbl (db (demo_world [])) ! 0 \<in> set (transactions_tbl (db (demo_world [])))"
    and ids: "distinct (map t_id (transactions_tbl (db (demo_world []))))"
    and r: "t_id (transactions_tbl (db (demo_world [])) ! 0) = 1"
      "t_amount (transactions_tbl (db (demo_world [])) ! 0) = 198"
      "t_type (transactions_tbl (db (demo_world [])) ! 0) = Some expense"
      "strftime_Ym (db (demo_world [])) (t_date (transactions_tbl (db (demo_world [])) ! 0))
         = Some ''2024-06''"
    by (simp_all add: demo_world_fields demo_db_def)
  have exact: "sums_exactly (db (demo_world []))
      (map t_amount (month_expenses (db (demo_world [])) ''2024-06''))"
    "sums_exactly (db (demo_world []))
      (map t_amount (month_expenses (snd (delete_transaction 1 (db (demo_world [])))) ''2024-06''))"
    by (simp_all add: sums_exactly_def month_expenses_def in_month_def is_expense_def
        delete_transaction_def demo_world_fields demo_db_def double_sums)
  have "totalExpense (store (snd (calculateMonthSummary None
            (snd (deleteTransaction (t_id (transactions_tbl (db (demo_world [])) ! 0))
               (demo_world []))))))
      = totalExpense (store (snd (calculateMonthSummary None (demo_world []))))
          - t_amount (transactions_tbl (db (demo_world [])) ! 0)"
    apply (rule deleteTransaction_lowers_totalExpense [OF demo_ok(1) row ids, of None,
          THEN conjunct2, THEN conjunct2, THEN mp])
    apply (simp add: sums_exactly_def demo_world_fields demo_db_def yearMonth_june double_sums)
    done
  then have "totalExpense (store (snd (calculateMonthSummary None
            (snd (deleteTransaction 1 (demo_world [])))))) = 2"
    by (simp add: r demo_summary)
  with row ids r exact demo_ok(1) [of 8] demo_summary(1) show ?thesis
    by simp
qed

text \<open>
  C8 as it was stated fails. Deleting the June income of 500 leaves totalExpense at 200.
  And with June expenses of 0.1 and 0.2 (the doubles nearest to them), whose \<open>SUM\<close> is
  the double 0.30000000000000004, deleting the expense of 0.2 leaves a totalExpense of
  0.1, which is neither the fraction 0.30000000000000004 - 0.2 nor the double nearest to
  it, 0.10000000000000003.
\<close>

theorem deleteTransaction_lowers_totalExpense_counterexample:
  "t_id (transactions_tbl (db (demo_world [])) ! 2) = 3 \<and>
   t_amount (transactions_tbl (db (demo_world [])) ! 2) = 500 \<and>
   t_type (transactions_tbl (db (demo_world [])) ! 2) = Some income \<and>
   \<not> fails_within 8 (demo_world []) \<and>
   totalExpense (store (snd (calculateMonthSummary None (demo_world [])))) = 200 \<and>
   totalExpense (store (snd (calculateMonthSummary None (snd (deleteTransaction 3 (demo_world []))))))
     = 200 \<and>
   totalExpense (store (snd (calculateMonthSummary None (snd (deleteTransaction 3 (demo_world []))))))
     \<noteq> totalExpense (store (snd (calculateMonthSummary None (demo_world [])))) - 500 \<and>
   t_id (transactions_tbl (db (demo_world_of fraction_rows)) ! 1) = 2 \<and>
   t_amount (transactions_tbl (db (demo_world_of fraction_rows)) ! 1)
     = 3602879701896397 / 18014398509481984 \<and>
   t_type (transactions_tbl (db (demo_world_of fraction_rows)) ! 1) = Some expense \<and>
   \<not> fails_within 8 (demo_world_of fraction_rows) \<and>
   totalExpense (store (snd (calculateMonthSummary None (demo_world_of fraction_rows))))
     = 1351079888211149 / 4503599627370496 \<and>
   totalExpense (store (snd (calculateMonthSummary None
      (snd (deleteTransaction 2 (demo_world_of fraction_rows))))))
     = 3602879701896397 / 36028797018963968 \<and>
   totalExpense (store (snd (calculateMonthSummary None
      (snd (deleteTransaction 2 (demo_world_of fraction_rows))))))
     \<noteq> totalExpense (store (snd (calculateMonthSummary None (demo_world_of fraction_rows))))
         - 3602879701896397 / 18014398509481984 \<and>
   totalExpense (store (snd (calculateMonthSummary None
      (snd (deleteTransaction 2 (demo_world_of fraction_rows))))))
     \<noteq> js_minus
          (totalExpense (store (snd (calculateMonthSummary None (demo_world_of fraction_rows)))))
          (3602879701896397 / 18014398509481984)"
proof -
  have r: "t_id (transactions_tbl (db (demo_world [])) ! 2) = 3"
    "t_amount (transactions_tbl (db (demo_world [])) ! 2) = 500"
    "t_type (transactions_tbl (db (demo_world [])) ! 2) = Some income"
    by (simp_all add: demo_world_fields demo_db_def)
  have later: "\<not> fails_within 3 (tick (tick (tick (tick (tick (demo_world []))))))"
    "\<not> fails_within 3 (tick (tick (tick (tick (tick (demo_world_of fraction_rows))))))"
    by (simp_all add: fails_within_def demo_world_fields demo_world_of_fields)
  have after: "totalExpense (store (snd (calculateMonthSummary None
      (snd (deleteTransaction 3 (demo_world [])))))) = 200"
    by (simp add: deleteTransaction_ok demo_ok cms_ok later summary_state_def demo_month
        demo_world_fields demo_june_without_salary)
  have f: "t_id (transactions_tbl (db (demo_world_of fraction_rows)) ! 1) = 2"
    "t_amount (transactions_tbl (db (demo_world_of fraction_rows)) ! 1)
       = 3602879701896397 / 18014398509481984"
    "t_type (transactions_tbl (db (demo_world_of fraction_rows)) ! 1) = Some expense"
    by (simp_all add: demo_world_of_fields fraction_rows_def)
  have f_before: "totalExpense (store (snd (calculateMonthSummary None
      (demo_world_of fraction_rows)))) = 1351079888211149 / 4503599627370496"
    by (simp add: cms_ok demo_ok summary_state_def demo_month demo_world_of_fields
        demo_fractions)
  have f_after: "totalExpense (store (snd (calculateMonthSummary None
      (snd (deleteTransaction 2 (demo_world_of fraction_rows))))))
       = 3602879701896397 / 36028797018963968"
    by (simp add: deleteTransaction_ok demo_ok cms_ok later summary_state_def demo_month
        demo_world_of_fields demo_fractions)
  show ?thesis
    unfolding f_before f_after after demo_summary(1)
    using r f demo_ok(1) [of 8] demo_ok(3) [of 8 fraction_rows] fraction_difference
    by simp
qed

text \<open>
  C9. On every input and in every state addExpense does what addTransaction does,
  whatever the type of the transaction, and calculateTotalMonth does what
  calculateMonthSummary does, for every month argument.
\<close>

theorem aliases_delegate:
  "addExpense transaction w = addTransaction transaction w \<and>
   calculateTotalMonth selectedMonth w = calculateMonthSummary selectedMonth w"
  by (simp add: addExpense_def calculateTotalMonth_def)

text \<open>
  C10. After a fetchRecentTransactions whose query succeeds, every cached transaction is
  a row of table \<open>transactions\<close> joined to a row of table \<open>categories\<close> with the id the
  transaction names, and carries that category's name, icon and color; a transaction row
  whose category_id is the id of no category row is not in the cache.
\<close>

theorem fetchRecentTransactions_inner_join:
  assumes ok: "\<not> next_fails w"
  shows "(\<forall>t\<in>set (transactions (store (snd (fetchRecentTransactions w)))).
            \<exists>r\<in>set (transactions_tbl (db w)). \<exists>c\<in>set (categories_tbl (db w)).
               c_id c = t_category_id r \<and> transaction_row.truncate t = r \<and>
               category_name t = Some (c_name c) \<and> category_icon t = Some (c_icon c) \<and>
               category_color t = Some (c_color c)) \<and>
         (\<forall>r\<in>set (transactions_tbl (db w)).
            t_category_id r \<notin> c_id ` set (categories_tbl (db w)) \<longrightarrow>
            r \<notin> transaction_row.truncate ` set (transactions (store (snd (fetchRecentTransactions w)))))"
proof -
  have cache: "transactions (store (snd (fetchRecentTransactions w))) =
      select_recent_transactions (db w)"
    using ok by (simp add: fetchRecentTransactions_run)
  have origin: "\<exists>r\<in>set (transactions_tbl (db w)). \<exists>c\<in>set (categories_tbl (db w)).
      c_id c = t_category_id r \<and> t = join_category r c"
    if "t \<in> set (select_recent_transactions (db w))" for t
    using that set_recent joined_origin by blast
  have first: "\<exists>r\<in>set (transactions_tbl (db w)). \<exists>c\<in>set (categories_tbl (db w)).
               c_id c = t_category_id r \<and> transaction_row.truncate t = r \<and>
               category_name t = Some (c_name c) \<and> category_icon t = Some (c_icon c) \<and>
               category_color t = Some (c_color c)"
    if "t \<in> set (select_recent_transactions (db w))" for t
  proof -
    from origin [OF that] obtain r c where "r \<in> set (transactions_tbl (db w))"
      "c \<in> set (categories_tbl (db w))" "c_id c = t_category_id r" "t = join_category r c"
      by blast
    moreover from this have "transaction_row.truncate t = r" "category_name t = Some (c_name c)"
      "category_icon t = Some (c_icon c)" "category_color t = Some (c_color c)"
      by (simp_all add: truncate_join) (simp_all add: join_category_def)
    ultimately show ?thesis by blast
  qed
  have second: "r \<notin> transaction_row.truncate ` set (select_recent_transactions (db w))"
    if "t_category_id r \<notin> c_id ` set (categories_tbl (db w))" for r
  proof
    assume "r \<in> transaction_row.truncate ` set (select_recent_transactions (db w))"
    then obtain t where "t \<in> set (select_recent_transactions (db w))"
      and "r = transaction_row.truncate t" by blast
    with first [of t] obtain c where "c \<in> set (categories_tbl (db w))" "c_id c = t_category_id r"
      by blast
    with that show False by (metis imageI)
  qed
  show ?thesis
    unfolding cache using first second by blast
qed

text \<open>
  C10 on the small database: the row of category 9, which no category row has, is not
  cached.
\<close>

theorem fetchRecentTransactions_inner_join_witness:
  "\<not> next_fails (demo_world []) \<and>
   transactions_tbl (db (demo_world [])) ! 5 \<in> set (transactions_tbl (db (demo_world []))) \<and>
   t_category_id (transactions_tbl (db (demo_world [])) ! 5)
     \<notin> c_id ` set (categories_tbl (db (demo_world []))) \<and>
   transactions_tbl (db (demo_world [])) ! 5 \<notin> transaction_row.truncate `
     set (transactions (store (snd (fetchRecentTransactions (demo_world []))))) \<and>
   map t_id (transactions (store (snd (fetchRecentTransactions (demo_world [])))))
     = [4, 2, 1, 3, 5]"
proof -
  have row: "transactions_tbl (db (demo_world [])) ! 5 \<in> set (transactions_tbl (db (demo_world [])))"
    and orphan: "t_category_id (transactions_tbl (db (demo_world [])) ! 5)
      \<notin> c_id ` set (categories_tbl (db (demo_world [])))"
    by (simp_all add: demo_world_fields demo_db_def)
  from fetchRecentTransactions_inner_join [OF demo_ok(2)] row orphan
  have "transactions_tbl (db (demo_world [])) ! 5 \<notin> transaction_row.truncate `
     set (transactions (store (snd (fetchRecentTransactions (demo_world [])))))"
    by blast
  moreover have "map t_id (transactions (store (snd (fetchRecentTransactions (demo_world [])))))
     = [4, 2, 1, 3, 5]"
    by (simp add: fetchRecentTransactions_run demo_ok demo_world_fields demo_recent)
  ultimately show ?thesis
    using row orphan demo_ok(2) by simp
qed

end

